theory Spec2Isabelle
  imports Complex_Main "HOL-Library.Monad_Syntax"
begin

section \<open>Python values\<close>

text \<open>
  The values that travel through the library as \<^verbatim>\<open>Any\<close>: message parameters, widget data,
  configuration values. \<open>PSet\<close> stands for the values \<^verbatim>\<open>json.dumps\<close> cannot encode even
  with the client's \<^verbatim>\<open>_json_serializer\<close> (a \<^verbatim>\<open>set\<close> has neither \<^verbatim>\<open>__dict__\<close> nor
  \<^verbatim>\<open>_asdict\<close>). Floats are the reals they denote, with the three non-finite values.
\<close>

datatype pyfloat = Finite real | PosInf | NegInf | NaN

datatype pyval =
    PNone
  | PBool bool
  | PInt int
  | PFloat pyfloat
  | PStr string
  | PList "pyval list"
  | PDict "(string \<times> pyval) list"
  | PSet "pyval list"

datatype py_error = TypeError | ValueError | OverflowError | OSError | UserError

text \<open>An envelope handed to \<^verbatim>\<open>client._send_message_async(method, params)\<close>.\<close>

type_synonym sent = "string \<times> pyval"

section \<open>Transport: the client's queue and its flusher\<close>

text \<open>
  JSON documents, and \<^verbatim>\<open>json.dumps(value, default=self._json_serializer)\<close> as the
  document it produces: a set is not encodable, and the serializer hook raises
  \<^verbatim>\<open>TypeError\<close> for it. A line written to the sink is represented by the document it
  holds.
\<close>

datatype json =
    JNull
  | JBool bool
  | JInt int
  | JFloat pyfloat
  | JStr string
  | JArr "json list"
  | JObj "(string \<times> json) list"

fun jsonable :: "pyval \<Rightarrow> bool" where
  "jsonable (PSet vs) = False"
| "jsonable (PList vs) = list_all jsonable vs"
| "jsonable (PDict kvs) = list_all (\<lambda>kv. jsonable (snd kv)) kvs"
| "jsonable v = True"

fun to_json :: "pyval \<Rightarrow> json" where
  "to_json PNone = JNull"
| "to_json (PBool b) = JBool b"
| "to_json (PInt i) = JInt i"
| "to_json (PFloat x) = JFloat x"
| "to_json (PStr s) = JStr s"
| "to_json (PList vs) = JArr (map to_json vs)"
| "to_json (PDict kvs) = JObj (map (\<lambda>kv. (fst kv, to_json (snd kv))) kvs)"
| "to_json (PSet vs) = JNull"

definition json_dumps :: "pyval \<Rightarrow> py_error + json" where
  "json_dumps v = (if jsonable v then Inr (to_json v) else Inl TypeError)"

text \<open>The dataclass \<^verbatim>\<open>HawkConfig\<close> and the class \<^verbatim>\<open>HawkMessage\<close>.\<close>

record hawk_config =
  app_name :: string
  buffer_size :: int
  flush_interval :: real
  auto_detect :: bool
  graceful_fallback :: bool
  thread_safe :: bool
  debug :: bool

definition default_config :: hawk_config where
  "default_config =
     \<lparr>app_name = ''python-app'', buffer_size = 100, flush_interval = 1 / 10,
      auto_detect = True, graceful_fallback = True, thread_safe = True, debug = False\<rparr>"

record hawk_message =
  msg_method :: string
  msg_params :: pyval
  message_id :: "string option"
  msg_timestamp :: string

text \<open>\<^verbatim>\<open>HawkMessage.to_jsonrpc\<close>.\<close>

definition to_jsonrpc :: "hawk_message \<Rightarrow> string \<Rightarrow> string \<Rightarrow> int \<Rightarrow> pyval" where
  "to_jsonrpc m app session seq =
     PDict ([(''jsonrpc'', PStr ''2.0''), (''method'', PStr (msg_method m)),
             (''params'', msg_params m)]
            @ (case message_id m of
                 None \<Rightarrow> []
               | Some i \<Rightarrow> if i = [] then [] else [(''id'', PStr i)])
            @ [(''hawk_meta'',
                PDict [(''app_name'', PStr app), (''session_id'', PStr session),
                       (''sequence'', PInt seq), (''timestamp'', PStr (msg_timestamp m))])])"

text \<open>
  The client: its configuration, the session, the sequence counter, the queue
  \<^verbatim>\<open>Queue(maxsize=buffer_size * 2)\<close> (oldest message first), the shutdown flag, and the
  sink: the lines written so far, and whether \<^verbatim>\<open>print\<close> succeeds.
\<close>

record hawk_client =
  cfg :: hawk_config
  session_id :: string
  sequence :: int
  buffer :: "hawk_message list"
  client_shutdown :: bool
  sink_ok :: bool
  written :: "json list"

definition client_init :: "hawk_config \<Rightarrow> string \<Rightarrow> hawk_client" where
  "client_init c session =
     \<lparr>cfg = c, session_id = session, sequence = 0, buffer = [], client_shutdown = False,
      sink_ok = True, written = []\<rparr>"

text \<open>A \<^verbatim>\<open>Queue\<close> with \<^verbatim>\<open>maxsize <= 0\<close> is unbounded.\<close>

definition maxsize :: "hawk_client \<Rightarrow> int" where
  "maxsize c = buffer_size (cfg c) * 2"

definition queue_full :: "hawk_client \<Rightarrow> hawk_message list \<Rightarrow> bool" where
  "queue_full c q = (maxsize c > 0 \<and> int (length q) \<ge> maxsize c)"

text \<open>
  The envelopes of a batch: \<^verbatim>\<open>_get_next_sequence\<close> is called once per message, in
  order.
\<close>

fun batch_envelopes :: "hawk_client \<Rightarrow> int \<Rightarrow> hawk_message list \<Rightarrow> pyval list" where
  "batch_envelopes c seq [] = []"
| "batch_envelopes c seq (m # ms) =
     to_jsonrpc m (app_name (cfg c)) (session_id c) (seq + 1) # batch_envelopes c (seq + 1) ms"

text \<open>
  \<^verbatim>\<open>HawkClient._flush_batch\<close>: the exception it raises, if any, and the client
  afterwards. One message is written as its envelope, several as a list of envelopes;
  the sequence numbers are taken before serialization, so they are spent even when it
  fails.
\<close>

definition flush_batch :: "hawk_client \<Rightarrow> hawk_message list \<Rightarrow> py_error option \<times> hawk_client" where
  "flush_batch c msgs =
     (if msgs = [] then (None, c)
      else
        (let envs = batch_envelopes c (sequence c) msgs;
             c1 = c\<lparr>sequence := sequence c + int (length msgs)\<rparr>;
             doc = (if length msgs = 1 then json_dumps (hd envs) else json_dumps (PList envs));
             failed = (\<lambda>e. if graceful_fallback (cfg c1) then (None, c1) else (Some e, c1))
         in (case doc of
               Inl e \<Rightarrow> failed e
             | Inr j \<Rightarrow>
                 if sink_ok c1 then (None, c1\<lparr>written := written c1 @ [j]\<rparr>)
                 else failed OSError)))"

text \<open>
  \<^verbatim>\<open>HawkClient._send_message_async\<close>, with the timestamp the new \<^verbatim>\<open>HawkMessage\<close>
  takes. \<^verbatim>\<open>put_nowait\<close> raises on a full queue and \<^verbatim>\<open>get_nowait\<close> on an empty one; both
  handlers around them are bare \<^verbatim>\<open>except\<close> clauses. The three queue operations are taken
  without another thread in between.
\<close>

definition send_message_async ::
  "hawk_client \<Rightarrow> string \<Rightarrow> pyval \<Rightarrow> string option \<Rightarrow> string \<Rightarrow> py_error option \<times> hawk_client" where
  "send_message_async c method params mid ts =
     (if client_shutdown c then (None, c)
      else
        (let m = \<lparr>msg_method = method, msg_params = params, message_id = mid,
                  msg_timestamp = ts\<rparr>
         in if thread_safe (cfg c) then
              (if \<not> queue_full c (buffer c) then (None, c\<lparr>buffer := buffer c @ [m]\<rparr>)
               else (case buffer c of
                       [] \<Rightarrow> (None, c)
                     | oldest # rest \<Rightarrow>
                         if \<not> queue_full c rest then (None, c\<lparr>buffer := rest @ [m]\<rparr>)
                         else (None, c\<lparr>buffer := rest\<rparr>)))
            else
              (case flush_batch c [m] of
                 (None, c') \<Rightarrow> (None, c')
               | (Some e, c') \<Rightarrow>
                   if graceful_fallback (cfg c') then (None, c') else (Some e, c'))))"






section \<open>Dashboard\<close>

text \<open>
  A layout is the dict built from \<^verbatim>\<open>**layout_kwargs\<close>; the four keys the dashboard reads
  are modelled, each present or absent.
\<close>

record layout =
  row :: "int option"
  col :: "int option"
  width :: "int option"
  height :: "int option"

definition default_layout :: layout where
  "default_layout = \<lparr>row = Some 0, col = Some 0, width = Some 4, height = Some 3\<rparr>"

definition no_kwargs :: layout where
  "no_kwargs = \<lparr>row = None, col = None, width = None, height = None\<rparr>"

record widget_config =
  widget_id :: string
  title :: string
  widget_type :: string
  refresh_rate :: real
  wlayout :: layout
  enabled :: bool

text \<open>
  \<^verbatim>\<open>DashboardWidget.__init__\<close>: \<^verbatim>\<open>layout = layout_kwargs or {"width": 4, "height": 3}\<close>,
  passed to \<^verbatim>\<open>WidgetConfig\<close>, whose \<^verbatim>\<open>__post_init__\<close> only replaces a layout that is
  \<^verbatim>\<open>None\<close>.
\<close>

definition widget_init :: "string \<Rightarrow> string \<Rightarrow> string \<Rightarrow> real \<Rightarrow> layout \<Rightarrow> widget_config" where
  "widget_init wid ttl wtype rate layout_kwargs =
     \<lparr>widget_id = wid, title = ttl, widget_type = wtype, refresh_rate = rate,
      wlayout = (if layout_kwargs = no_kwargs
                 then \<lparr>row = None, col = None, width = Some 4, height = Some 3\<rparr>
                 else layout_kwargs),
      enabled = True\<rparr>"

text \<open>
  A widget is its configuration, its kind (the subclass) and its data source. The data
  source is user code: \<open>data_func w k\<close> is what its \<open>k\<close>-th invocation does (a value, or
  an exception), \<open>stamp w k\<close> is \<^verbatim>\<open>datetime.now(timezone.utc).isoformat()\<close> read at that
  invocation, and \<open>calls w\<close> counts the invocations made so far.
\<close>

datatype widget_kind = Metric string | Status | Chart string | Table | Custom

record widget =
  config :: widget_config
  kind :: widget_kind
  data_func :: "nat \<Rightarrow> py_error + pyval"
  stamp :: "nat \<Rightarrow> string"
  calls :: nat

record dashboard =
  widgets :: "string \<rightharpoonup> widget"
  refresh_threads :: "string set"
  shutdown_flag :: bool
  next_row :: int
  next_col :: int
  max_cols :: int
  outbox :: "sent list"

definition dashboard_init :: dashboard where
  "dashboard_init =
     \<lparr>widgets = Map.empty, refresh_threads = {}, shutdown_flag = False,
      next_row = 0, next_col = 0, max_cols = 12, outbox = []\<rparr>"

text \<open>\<^verbatim>\<open>Dashboard._auto_layout(width, height)\<close>: the layout assigned and the updated dashboard.\<close>

definition auto_layout :: "dashboard \<Rightarrow> int \<Rightarrow> int \<Rightarrow> layout \<times> dashboard" where
  "auto_layout d w h =
     (let d1 = (if next_col d + w > max_cols d
                then d\<lparr>next_row := next_row d + h, next_col := 0\<rparr>
                else d);
          l = \<lparr>row = Some (next_row d1), col = Some (next_col d1),
               width = Some w, height = Some h\<rparr>
      in (l, d1\<lparr>next_col := next_col d1 + w\<rparr>))"

fun dict_set :: "(string \<times> pyval) list \<Rightarrow> string \<Rightarrow> pyval \<Rightarrow> (string \<times> pyval) list" where
  "dict_set [] k v = [(k, v)]"
| "dict_set ((k', v') # kvs) k v =
     (if k' = k then (k, v) # kvs else (k', v') # dict_set kvs k v)"

text \<open>
  \<^verbatim>\<open>get_data\<close> of the five widget classes. \<^verbatim>\<open>ChartWidget\<close> assigns
  \<^verbatim>\<open>data["chart_type"]\<close>, which raises \<^verbatim>\<open>TypeError\<close> on anything but a dict (a list
  takes integer indices only).
\<close>

definition get_data :: "widget \<Rightarrow> (py_error + pyval) \<times> widget" where
  "get_data w =
     (let r = data_func w (calls w);
          w' = w\<lparr>calls := calls w + 1\<rparr>
      in (case r of
            Inl e \<Rightarrow> (Inl e, w')
          | Inr v \<Rightarrow>
              (case kind w of
                 Metric unit \<Rightarrow>
                   (Inr (PDict [(''value'', v), (''unit'', PStr unit),
                                (''timestamp'', PStr (stamp w (calls w)))]), w')
               | Chart chart_type \<Rightarrow>
                   (case v of
                      PDict kvs \<Rightarrow> (Inr (PDict (dict_set kvs ''chart_type'' (PStr chart_type))), w')
                    | _ \<Rightarrow> (Inl TypeError, w'))
               | _ \<Rightarrow> (Inr v, w'))))"

definition layout_dict :: "layout \<Rightarrow> pyval" where
  "layout_dict l =
     PDict (concat
       [case row l of None \<Rightarrow> [] | Some v \<Rightarrow> [(''row'', PInt v)],
        case col l of None \<Rightarrow> [] | Some v \<Rightarrow> [(''col'', PInt v)],
        case width l of None \<Rightarrow> [] | Some v \<Rightarrow> [(''width'', PInt v)],
        case height l of None \<Rightarrow> [] | Some v \<Rightarrow> [(''height'', PInt v)]])"

text \<open>
  \<^verbatim>\<open>Dashboard._send_widget_update(widget, data=None)\<close>: a \<^verbatim>\<open>None\<close> makes it call
  \<^verbatim>\<open>get_data\<close> itself. The dashboard's name is \<open>dname\<close>.
\<close>

definition send_widget_update ::
  "string \<Rightarrow> dashboard \<Rightarrow> widget \<Rightarrow> pyval \<Rightarrow> (py_error + dashboard) \<times> widget" where
  "send_widget_update dname d w data0 =
     (let (r, w1) = (if data0 = PNone then get_data w else (Inr data0, w))
      in (case r of
            Inl e \<Rightarrow> (Inl e, w1)
          | Inr data \<Rightarrow>
              (Inr (d\<lparr>outbox := outbox d @
                       [(''hawk.dashboard'',
                         PDict [(''widget_id'', PStr (widget_id (config w1))),
                                (''type'', PStr (widget_type (config w1))),
                                (''title'', PStr (title (config w1))),
                                (''data'', data),
                                (''layout'', layout_dict (wlayout (config w1))),
                                (''dashboard'', PStr dname)])]\<rparr>), w1)))"

text \<open>
  \<^verbatim>\<open>Dashboard._add_widget\<close>. Auto-layout runs only when the widget's layout equals the
  full default rectangle. The refresh thread is registered under the widget's id; the
  initial update may raise what the data source raises.
\<close>

definition add_widget :: "string \<Rightarrow> dashboard \<Rightarrow> widget \<Rightarrow> (py_error + dashboard) \<times> widget" where
  "add_widget dname d w =
     (let (w1, d1) =
            (if wlayout (config w) = default_layout
             then (let (l, d') = auto_layout d (the (width (wlayout (config w))))
                                               (the (height (wlayout (config w))))
                   in (w\<lparr>config := (config w)\<lparr>wlayout := l\<rparr>\<rparr>, d'))
             else (w, d));
          d2 = d1\<lparr>widgets := (widgets d1)(widget_id (config w1) \<mapsto> w1)\<rparr>;
          d3 = (if refresh_rate (config w1) > 0
                then d2\<lparr>refresh_threads := insert (widget_id (config w1)) (refresh_threads d2)\<rparr>
                else d2)
      in send_widget_update dname d3 w1 PNone)"

text \<open>\<^verbatim>\<open>Dashboard.remove_widget\<close>.\<close>

definition remove_widget :: "dashboard \<Rightarrow> string \<Rightarrow> dashboard" where
  "remove_widget d wid =
     (let d1 = (if wid \<in> dom (widgets d) then d\<lparr>widgets := (widgets d)(wid := None)\<rparr> else d)
      in (if wid \<in> refresh_threads d1
          then d1\<lparr>refresh_threads := refresh_threads d1 - {wid}\<rparr>
          else d1))"

text \<open>
  \<^verbatim>\<open>Dashboard._refresh_worker(widget)\<close>, the loop of a widget's thread. The fuel bounds
  the number of iterations looked at: \<open>Running\<close> says the loop condition still held when
  the fuel ran out, \<open>Exited\<close> that the loop left. An exception in the body is reported
  with \<^verbatim>\<open>client.error\<close> (a \<^verbatim>\<open>hawk.log\<close> envelope) and the loop goes on. The sleeps and
  the timing statistics are left out.
\<close>

datatype loop_status = Exited | Running

definition error_text :: "py_error \<Rightarrow> string" where
  "error_text e = (case e of TypeError \<Rightarrow> ''TypeError'' | ValueError \<Rightarrow> ''ValueError''
                   | OverflowError \<Rightarrow> ''OverflowError'' | OSError \<Rightarrow> ''OSError''
                   | UserError \<Rightarrow> ''UserError'')"

definition refresh_body :: "string \<Rightarrow> dashboard \<Rightarrow> widget \<Rightarrow> dashboard \<times> widget" where
  "refresh_body dname d w =
     (let (r, w1) = get_data w;
          failed = (\<lambda>e wx. (d\<lparr>outbox := outbox d @
                      [(''hawk.log'',
                        PDict [(''message'', PStr (''Widget refresh error: '' @ widget_id (config wx)
                                                    @ '': '' @ error_text e)),
                               (''level'', PStr ''ERROR'')])]\<rparr>, wx))
      in (case r of
            Inl e \<Rightarrow> failed e w1
          | Inr data \<Rightarrow>
              (case send_widget_update dname d w1 data of
                 (Inl e, w2) \<Rightarrow> failed e w2
               | (Inr d2, w2) \<Rightarrow> (d2, w2))))"

fun refresh_worker ::
  "nat \<Rightarrow> string \<Rightarrow> dashboard \<Rightarrow> widget \<Rightarrow> loop_status \<times> dashboard \<times> widget" where
  "refresh_worker 0 dname d w =
     (if \<not> shutdown_flag d \<and> enabled (config w) then (Running, d, w) else (Exited, d, w))"
| "refresh_worker (Suc n) dname d w =
     (if \<not> shutdown_flag d \<and> enabled (config w)
      then (let (d1, w1) = refresh_body dname d w in refresh_worker n dname d1 w1)
      else (Exited, d, w))"

text \<open>
  A run of \<^verbatim>\<open>_add_widget\<close> calls, one per widget of the list, as successive
  \<^verbatim>\<open>add_metric\<close> calls make them: it ends at the first exception. The widgets are
  returned as the calls leave them.
\<close>

fun add_widgets ::
  "string \<Rightarrow> dashboard \<Rightarrow> widget list \<Rightarrow> (py_error + dashboard) \<times> widget list" where
  "add_widgets dname d [] = (Inr d, [])"
| "add_widgets dname d (w # ws) =
     (case add_widget dname d w of
        (Inl e, w') \<Rightarrow> (Inl e, [w'])
      | (Inr d', w') \<Rightarrow> (case add_widgets dname d' ws of (r, ws') \<Rightarrow> (r, w' # ws')))"

text \<open>
  The widget that \<^verbatim>\<open>dashboard.add_metric(wid, wid, lambda: 1, width=5)\<close> builds: its
  layout is the dict \<^verbatim>\<open>{"width": 5}\<close>.
\<close>

definition metric5 :: "string \<Rightarrow> widget" where
  "metric5 wid =
     \<lparr>config = widget_init wid wid ''gauge'' 1
                 \<lparr>row = None, col = None, width = Some 5, height = None\<rparr>,
      kind = Metric [],
      data_func = (\<lambda>k. Inr (PInt 1)),
      stamp = (\<lambda>k. ''2024-01-01T00:00:00+00:00''),
      calls = 0\<rparr>"
text \<open>The \<^verbatim>\<open>hawk.dashboard\<close> envelopes of an outbox that carry a given widget id.\<close>

definition dashboard_envelopes :: "string \<Rightarrow> sent list \<Rightarrow> sent list" where
  "dashboard_envelopes wid out =
     filter (\<lambda>(m, p). m = ''hawk.dashboard'' \<and>
               (case p of PDict kvs \<Rightarrow> map_of kvs ''widget_id'' = Some (PStr wid) | _ \<Rightarrow> False)) out"

text \<open>
  A metric widget \<^verbatim>\<open>cpu\<close> whose data source always returns 42, as
  \<^verbatim>\<open>dashboard.add_metric("cpu", "CPU", lambda: 42)\<close> builds it, and the dashboard
  \<^verbatim>\<open>demo\<close> after that call.
\<close>

definition cpu_widget :: widget where
  "cpu_widget =
     \<lparr>config = widget_init ''cpu'' ''CPU'' ''gauge'' 1 no_kwargs,
      kind = Metric [],
      data_func = (\<lambda>k. Inr (PInt 42)),
      stamp = (\<lambda>k. ''2024-01-01T00:00:00+00:00''),
      calls = 0\<rparr>"

definition cpu_dashboard :: dashboard where
  "cpu_dashboard =
     (case add_widget ''demo'' dashboard_init cpu_widget of
        (Inr d, w) \<Rightarrow> d
      | (Inl e, w) \<Rightarrow> dashboard_init)"

section \<open>Python built-ins used by the configuration panel\<close>

text \<open>
  \<^verbatim>\<open>int(s)\<close> and \<^verbatim>\<open>float(s)\<close> on a string are the interpreter's: the model takes them
  as a parameter (\<open>None\<close> where Python raises \<^verbatim>\<open>ValueError\<close>), so that what is proved
  holds for the real grammar of numeric literals.
\<close>

record pylib =
  int_of_str :: "string \<Rightarrow> int option"
  float_of_str :: "string \<Rightarrow> pyfloat option"

text \<open>\<^verbatim>\<open>isinstance(value, int)\<close> (a \<^verbatim>\<open>bool\<close> is an \<^verbatim>\<open>int\<close>), \<^verbatim>\<open>isinstance(value, (int, float))\<close>.\<close>

fun is_int :: "pyval \<Rightarrow> bool" where
  "is_int (PBool b) = True"
| "is_int (PInt i) = True"
| "is_int v = False"

fun is_int_or_float :: "pyval \<Rightarrow> bool" where
  "is_int_or_float (PFloat f) = True"
| "is_int_or_float v = is_int v"

fun is_bool :: "pyval \<Rightarrow> bool" where
  "is_bool (PBool b) = True"
| "is_bool v = False"

text \<open>\<^verbatim>\<open>int(value)\<close>: truncation of a finite float, the errors of the others.\<close>

fun py_int :: "pylib \<Rightarrow> pyval \<Rightarrow> py_error + int" where
  "py_int lib (PBool b) = Inr (if b then 1 else 0)"
| "py_int lib (PInt i) = Inr i"
| "py_int lib (PFloat (Finite r)) = Inr (if r < 0 then - \<lfloor>- r\<rfloor> else \<lfloor>r\<rfloor>)"
| "py_int lib (PFloat NaN) = Inl ValueError"
| "py_int lib (PFloat f) = Inl OverflowError"
| "py_int lib (PStr s) = (case int_of_str lib s of None \<Rightarrow> Inl ValueError | Some i \<Rightarrow> Inr i)"
| "py_int lib v = Inl TypeError"

fun py_float :: "pylib \<Rightarrow> pyval \<Rightarrow> py_error + pyfloat" where
  "py_float lib (PBool b) = Inr (Finite (if b then 1 else 0))"
| "py_float lib (PInt i) = Inr (Finite (of_int i))"
| "py_float lib (PFloat f) = Inr f"
| "py_float lib (PStr s) = (case float_of_str lib s of None \<Rightarrow> Inl ValueError | Some f \<Rightarrow> Inr f)"
| "py_float lib v = Inl TypeError"

text \<open>\<^verbatim>\<open>str.lower()\<close> on ASCII letters.\<close>

definition lower_char :: "char \<Rightarrow> char" where
  "lower_char c =
     (if 65 \<le> (of_char c :: nat) \<and> (of_char c :: nat) \<le> 90
      then char_of (of_char c + 32 :: nat) else c)"

definition py_lower :: "string \<Rightarrow> string" where
  "py_lower s = map lower_char s"

text \<open>
  The numbers a bound can be (\<^verbatim>\<open>Optional[Union[int, float]]\<close>), and the comparisons
  \<^verbatim>\<open>value < bound\<close> and \<^verbatim>\<open>value > bound\<close>. Comparing a number with \<^verbatim>\<open>None\<close>, a string or
  a container raises \<^verbatim>\<open>TypeError\<close>; every comparison with NaN is false.
\<close>

datatype pynum = NInt int | NFloat pyfloat

fun num_float :: "pynum \<Rightarrow> pyfloat" where
  "num_float (NInt i) = Finite (of_int i)"
| "num_float (NFloat f) = f"

fun float_lt :: "pyfloat \<Rightarrow> pyfloat \<Rightarrow> bool" where
  "float_lt NaN y = False"
| "float_lt x NaN = False"
| "float_lt (Finite a) (Finite b) = (a < b)"
| "float_lt (Finite a) PosInf = True"
| "float_lt NegInf (Finite b) = True"
| "float_lt NegInf PosInf = True"
| "float_lt x y = False"

fun as_num :: "pyval \<Rightarrow> pynum option" where
  "as_num (PBool b) = Some (NInt (if b then 1 else 0))"
| "as_num (PInt i) = Some (NInt i)"
| "as_num (PFloat f) = Some (NFloat f)"
| "as_num v = None"

definition py_lt :: "pyval \<Rightarrow> pynum \<Rightarrow> py_error + bool" where
  "py_lt v b = (case as_num v of None \<Rightarrow> Inl TypeError
                | Some n \<Rightarrow> Inr (float_lt (num_float n) (num_float b)))"

definition py_gt :: "pyval \<Rightarrow> pynum \<Rightarrow> py_error + bool" where
  "py_gt v b = (case as_num v of None \<Rightarrow> Inl TypeError
                | Some n \<Rightarrow> Inr (float_lt (num_float b) (num_float n)))"

fun num_val :: "pynum \<Rightarrow> pyval" where
  "num_val (NInt i) = PInt i"
| "num_val (NFloat f) = PFloat f"

section \<open>Configuration panel\<close>

text \<open>
  The dataclass \<^verbatim>\<open>ConfigField\<close>. A custom validator is user code: applied to a value it
  returns something truthy or falsy, or raises.
\<close>

record config_field =
  key :: string
  field_type :: string
  description :: string
  default_value :: pyval
  required :: bool
  min_value :: "pynum option"
  max_value :: "pynum option"
  options :: "string list option"
  restart_required :: bool
  validation_func :: "(pyval \<Rightarrow> py_error + bool) option"
  category :: string

text \<open>
  The panel: the client it sends through, \<^verbatim>\<open>_fields\<close>, \<^verbatim>\<open>_values\<close>, \<^verbatim>\<open>_callbacks\<close>,
  \<^verbatim>\<open>_categories\<close>, the persistence settings, and what the panel has done to the outside:
  the change callbacks invoked and the files written. \<open>now_iso p k\<close> is the text of the
  \<open>k\<close>-th reading of \<^verbatim>\<open>datetime.now\<close> made for the panel's messages, \<open>now_reads\<close> the
  number of readings so far. A change callback and a custom validator are user code that
  returns or raises, without calling back into the panel; \<open>disk_ok\<close> says whether writing
  the configuration file succeeds.
\<close>

record config_panel =
  panel_name :: string
  panel_client :: hawk_client
  now_iso :: "nat \<Rightarrow> string"
  now_reads :: nat
  cfields :: "string \<rightharpoonup> config_field"
  cvalues :: "string \<rightharpoonup> pyval"
  callbacks :: "string \<rightharpoonup> (string \<Rightarrow> pyval \<Rightarrow> pyval \<Rightarrow> py_error option)"
  categories :: "string set"
  config_file :: "string option"
  auto_save :: bool
  disk_ok :: bool
  disk :: "string \<rightharpoonup> (string \<rightharpoonup> pyval)"
  notified :: "(string \<times> pyval \<times> pyval) list"

text \<open>\<^verbatim>\<open>ConfigPanel(name, client)\<close>.\<close>

definition panel_init :: "string \<Rightarrow> hawk_client \<Rightarrow> (nat \<Rightarrow> string) \<Rightarrow> config_panel" where
  "panel_init name client now =
     \<lparr>panel_name = name, panel_client = client, now_iso = now, now_reads = 0,
      cfields = Map.empty, cvalues = Map.empty, callbacks = Map.empty,
      categories = {}, config_file = None, auto_save = True, disk_ok = True,
      disk = Map.empty, notified = []\<rparr>"

text \<open>
  \<^verbatim>\<open>self.client._send_message_async(method, params)\<close> called by the panel: the exception
  that comes out of it, if any, and the panel afterwards. The message's timestamp is
  read when the \<^verbatim>\<open>HawkMessage\<close> is built, which a client that is shut down never does.
\<close>

definition panel_send :: "config_panel \<Rightarrow> string \<Rightarrow> pyval \<Rightarrow> py_error option \<times> config_panel" where
  "panel_send p method params =
     (if client_shutdown (panel_client p) then (None, p)
      else
        (let (r, c') = send_message_async (panel_client p) method params None
                         (now_iso p (now_reads p))
         in (r, p\<lparr>panel_client := c', now_reads := now_reads p + 1\<rparr>)))"

text \<open>
  \<^verbatim>\<open>self.client.error(message)\<close>, that is \<^verbatim>\<open>log(message, level="ERROR")\<close>, outside any
  \<^verbatim>\<open>hawk.context\<close> block: the parameters carry a timestamp of their own.
\<close>

definition panel_error :: "config_panel \<Rightarrow> string \<Rightarrow> py_error option \<times> config_panel" where
  "panel_error p message =
     panel_send (p\<lparr>now_reads := now_reads p + 1\<rparr>) ''hawk.log''
       (PDict [(''message'', PStr message), (''level'', PStr ''ERROR''),
               (''timestamp'', PStr (now_iso p (now_reads p)))])"

text \<open>\<^verbatim>\<open>ConfigPanel._send_config_field\<close>.\<close>

definition send_config_field :: "config_panel \<Rightarrow> config_field \<Rightarrow> py_error option \<times> config_panel" where
  "send_config_field p f =
     panel_send p ''hawk.config''
       (PDict ([(''key'', PStr (key f)), (''type'', PStr (field_type f)),
                (''description'', PStr (description f)), (''default'', default_value f),
                (''required'', PBool (required f)), (''category'', PStr (category f)),
                (''panel'', PStr (panel_name p))]
               @ (case min_value f of None \<Rightarrow> [] | Some m \<Rightarrow> [(''min'', num_val m)])
               @ (case max_value f of None \<Rightarrow> [] | Some m \<Rightarrow> [(''max'', num_val m)])
               @ (case options f of None \<Rightarrow> [] | Some os \<Rightarrow>
                    if os = [] then [] else [(''options'', PList (map PStr os))])
               @ (if restart_required f then [(''restart_required'', PBool True)] else [])
               @ (case cvalues p (key f) of None \<Rightarrow> [] | Some v \<Rightarrow> [(''value'', v)])))"

text \<open>
  \<^verbatim>\<open>ConfigPanel.add_field\<close>: the field replaces any earlier one of its key; the default
  becomes the value only if the key has no value yet and the default is not \<^verbatim>\<open>None\<close>.
  The result is the exception raised by the send of the field definition, if any, and the
  panel afterwards.
\<close>

definition add_field :: "config_panel \<Rightarrow> config_field \<Rightarrow> py_error option \<times> config_panel" where
  "add_field p f =
     (let p1 = p\<lparr>cfields := (cfields p)(key f \<mapsto> f),
                 categories := insert (category f) (categories p)\<rparr>;
          p2 = (if key f \<notin> dom (cvalues p1) \<and> default_value f \<noteq> PNone
                then p1\<lparr>cvalues := (cvalues p1)(key f \<mapsto> default_value f)\<rparr>
                else p1)
      in send_config_field p2 f)"

text \<open>
  \<^verbatim>\<open>ConfigPanel._validate_value\<close>, in three steps. The first is the \<^verbatim>\<open>if/elif\<close> chain
  on the field type: it yields the value the later checks see (coerced for an integer,
  float or boolean field), or \<open>None\<close> where the method returns \<^verbatim>\<open>False\<close>. The membership
  test of an enum field is the last branch of that chain. Every exception inside the
  method ends in \<^verbatim>\<open>return False\<close>.
\<close>

definition type_validation :: "pylib \<Rightarrow> config_field \<Rightarrow> pyval \<Rightarrow> pyval option" where
  "type_validation lib f v =
     (if field_type f = ''integer'' \<and> \<not> is_int v then
        (case py_int lib v of Inl e \<Rightarrow> None | Inr i \<Rightarrow> Some (PInt i))
      else if field_type f = ''float'' \<and> \<not> is_int_or_float v then
        (case py_float lib v of Inl e \<Rightarrow> None | Inr x \<Rightarrow> Some (PFloat x))
      else if field_type f = ''boolean'' \<and> \<not> is_bool v then
        (case v of
           PStr s \<Rightarrow> Some (PBool (py_lower s \<in> set [''true'', ''1'', ''yes'', ''on'']))
         | _ \<Rightarrow> None)
      else if field_type f = ''enum'' \<and> options f \<noteq> None \<and> options f \<noteq> Some []
              \<and> v \<notin> PStr ` set (the (options f)) then None
      else Some v)"

definition range_validation :: "config_field \<Rightarrow> pyval \<Rightarrow> bool" where
  "range_validation f v =
     ((case min_value f of None \<Rightarrow> True
       | Some m \<Rightarrow> (case py_lt v m of Inl e \<Rightarrow> False | Inr b \<Rightarrow> \<not> b))
      \<and> (case max_value f of None \<Rightarrow> True
          | Some m \<Rightarrow> (case py_gt v m of Inl e \<Rightarrow> False | Inr b \<Rightarrow> \<not> b)))"

definition custom_validation :: "config_field \<Rightarrow> pyval \<Rightarrow> bool" where
  "custom_validation f v =
     (case validation_func f of None \<Rightarrow> True
      | Some g \<Rightarrow> (case g v of Inl e \<Rightarrow> False | Inr b \<Rightarrow> b))"

definition validate_value :: "pylib \<Rightarrow> config_field \<Rightarrow> pyval \<Rightarrow> bool" where
  "validate_value lib f v =
     (case type_validation lib f v of
        None \<Rightarrow> False
      | Some v' \<Rightarrow>
          if \<not> range_validation f v' then False
          else if \<not> custom_validation f v' then False
          else True)"

text \<open>
  \<^verbatim>\<open>ConfigPanel._save_to_file\<close>: the whole value set goes to the configuration file; a
  failure is reported with \<^verbatim>\<open>client.error\<close> from inside the handler, so what that call
  raises leaves the method. The message is modelled up to the file name.
\<close>

definition save_to_file :: "config_panel \<Rightarrow> py_error option \<times> config_panel" where
  "save_to_file p =
     (case config_file p of
        None \<Rightarrow> (None, p)
      | Some path \<Rightarrow>
          if disk_ok p then (None, p\<lparr>disk := (disk p)(path \<mapsto> cvalues p)\<rparr>)
          else panel_error p (''Failed to save config to '' @ path))"

text \<open>\<^verbatim>\<open>ConfigPanel._send_config_update\<close>.\<close>

definition send_config_update ::
  "config_panel \<Rightarrow> string \<Rightarrow> pyval \<Rightarrow> py_error option \<times> config_panel" where
  "send_config_update p k v =
     panel_send p ''hawk.config''
       (PDict [(''key'', PStr k), (''value'', v), (''panel'', PStr (panel_name p))])"

text \<open>
  The block of \<^verbatim>\<open>set_value\<close> that calls the change callback registered for the key: an
  exception of the callback is caught and reported with \<^verbatim>\<open>client.error\<close>, whose own
  exception is not caught.
\<close>

definition call_change_callback ::
  "config_panel \<Rightarrow> string \<Rightarrow> pyval \<Rightarrow> pyval \<Rightarrow> py_error option \<times> config_panel" where
  "call_change_callback p k old_value v =
     (case callbacks p k of
        None \<Rightarrow> (None, p)
      | Some cb \<Rightarrow>
          (let p' = p\<lparr>notified := notified p @ [(k, old_value, v)]\<rparr>
           in (case cb k old_value v of
                 None \<Rightarrow> (None, p')
               | Some e \<Rightarrow>
                   panel_error p' (''Config callback error for '' @ k @ '': '' @ error_text e))))"

text \<open>
  \<^verbatim>\<open>ConfigPanel.set_value(key, value, validate)\<close>: what the call does (it raises, or
  returns a boolean) and the panel afterwards. An unknown key is a \<^verbatim>\<open>ValueError\<close>. The
  value is stored before the update is sent, so an exception of the client leaves the
  call with the new value in place.
\<close>

definition set_value ::
  "pylib \<Rightarrow> config_panel \<Rightarrow> string \<Rightarrow> pyval \<Rightarrow> bool \<Rightarrow> (py_error + bool) \<times> config_panel" where
  "set_value lib p k v validate =
     (case cfields p k of
        None \<Rightarrow> (Inl ValueError, p)
      | Some f \<Rightarrow>
          if validate \<and> \<not> validate_value lib f v then (Inr False, p)
          else
            (let old_value = (case cvalues p k of None \<Rightarrow> PNone | Some old \<Rightarrow> old);
                 p1 = p\<lparr>cvalues := (cvalues p)(k \<mapsto> v)\<rparr>
             in (case send_config_update p1 k v of
                   (Some e, p2) \<Rightarrow> (Inl e, p2)
                 | (None, p2) \<Rightarrow>
                     (case call_change_callback p2 k old_value v of
                        (Some e, p3) \<Rightarrow> (Inl e, p3)
                      | (None, p3) \<Rightarrow>
                          (case (if auto_save p3 \<and> config_file p3 \<noteq> None
                                 then save_to_file p3 else (None, p3)) of
                             (Some e, p4) \<Rightarrow> (Inl e, p4)
                           | (None, p4) \<Rightarrow> (Inr True, p4))))))"

text \<open>\<^verbatim>\<open>ConfigPanel.get_value(key, default)\<close>.\<close>

definition get_value :: "config_panel \<Rightarrow> string \<Rightarrow> pyval \<Rightarrow> pyval" where
  "get_value p k d = (case cvalues p k of None \<Rightarrow> d | Some v \<Rightarrow> v)"

text \<open>
  The validation as the specification words it, four checks in its order, each on the
  value the first one yields. Type coercion or check: an integer, float or boolean field
  converts what is not of its type and fails where the conversion does. Numeric range
  check: a value meets a bound if it is a number not on the wrong side of it. Enum
  membership: the value is one of a non-empty list of options. Custom validator: the
  validator, if there is one, returns a truthy result.
\<close>

definition spec_type_check :: "pylib \<Rightarrow> config_field \<Rightarrow> pyval \<Rightarrow> pyval option" where
  "spec_type_check lib f v =
     (if field_type f = ''integer'' \<and> \<not> is_int v then
        (case py_int lib v of Inl e \<Rightarrow> None | Inr i \<Rightarrow> Some (PInt i))
      else if field_type f = ''float'' \<and> \<not> is_int_or_float v then
        (case py_float lib v of Inl e \<Rightarrow> None | Inr x \<Rightarrow> Some (PFloat x))
      else if field_type f = ''boolean'' \<and> \<not> is_bool v then
        (case v of
           PStr s \<Rightarrow> Some (PBool (py_lower s \<in> set [''true'', ''1'', ''yes'', ''on'']))
         | _ \<Rightarrow> None)
      else Some v)"

fun spec_not_below :: "pynum option \<Rightarrow> pyval \<Rightarrow> bool" where
  "spec_not_below None v = True"
| "spec_not_below (Some lo) (PBool b) = (\<not> float_lt (Finite (if b then 1 else 0)) (num_float lo))"
| "spec_not_below (Some lo) (PInt i) = (\<not> float_lt (Finite (of_int i)) (num_float lo))"
| "spec_not_below (Some lo) (PFloat x) = (\<not> float_lt x (num_float lo))"
| "spec_not_below (Some lo) v = False"

fun spec_not_above :: "pynum option \<Rightarrow> pyval \<Rightarrow> bool" where
  "spec_not_above None v = True"
| "spec_not_above (Some hi) (PBool b) = (\<not> float_lt (num_float hi) (Finite (if b then 1 else 0)))"
| "spec_not_above (Some hi) (PInt i) = (\<not> float_lt (num_float hi) (Finite (of_int i)))"
| "spec_not_above (Some hi) (PFloat x) = (\<not> float_lt (num_float hi) x)"
| "spec_not_above (Some hi) v = False"

definition spec_range_check :: "config_field \<Rightarrow> pyval \<Rightarrow> bool" where
  "spec_range_check f v = (spec_not_below (min_value f) v \<and> spec_not_above (max_value f) v)"

definition spec_enum_check :: "config_field \<Rightarrow> pyval \<Rightarrow> bool" where
  "spec_enum_check f v =
     (if field_type f = ''enum'' \<and> options f \<noteq> None \<and> options f \<noteq> Some []
      then v \<in> PStr ` set (the (options f)) else True)"

definition spec_custom_check :: "config_field \<Rightarrow> pyval \<Rightarrow> bool" where
  "spec_custom_check f v =
     (case validation_func f of None \<Rightarrow> True | Some g \<Rightarrow> g v = Inr True)"

definition spec_validate :: "pylib \<Rightarrow> config_field \<Rightarrow> pyval \<Rightarrow> bool" where
  "spec_validate lib f v =
     (case spec_type_check lib f v of
        None \<Rightarrow> False
      | Some v' \<Rightarrow>
          if \<not> spec_range_check f v' then False
          else if \<not> spec_enum_check f v' then False
          else spec_custom_check f v')"

text \<open>
  For the concrete examples: an interpreter that reads plain decimal digits, a clock,
  a client with the default configuration, and the panel after
  \<^verbatim>\<open>add_field("n", "integer", default=5, min_value=1, max_value=10)\<close>.
\<close>

fun digits_value :: "string \<Rightarrow> nat \<Rightarrow> nat option" where
  "digits_value [] acc = Some acc"
| "digits_value (c # cs) acc =
     (if 48 \<le> (of_char c :: nat) \<and> (of_char c :: nat) \<le> 57
      then digits_value cs (10 * acc + (of_char c - 48))
      else None)"

definition decimal_lib :: pylib where
  "decimal_lib =
     \<lparr>int_of_str = (\<lambda>s. if s = [] then None else map_option int (digits_value s 0)),
      float_of_str = (\<lambda>s. if s = [] then None
                           else map_option (\<lambda>n. Finite (of_nat n)) (digits_value s 0))\<rparr>"

definition noon :: "nat \<Rightarrow> string" where
  "noon k = ''2024-01-01T12:00:00+00:00''"

definition field_n :: config_field where
  "field_n =
     \<lparr>key = ''n'', field_type = ''integer'', description = [], default_value = PInt 5,
      required = False, min_value = Some (NInt 1), max_value = Some (NInt 10),
      options = None, restart_required = False, validation_func = None,
      category = ''General''\<rparr>"

definition panel_n :: config_panel where
  "panel_n = snd (add_field (panel_init ''demo'' (client_init default_config ''sess_1'') noon)
                    field_n)"

text \<open>
  The same field with a validator that accepts the even integers and raises
  \<^verbatim>\<open>TypeError\<close> on what is not an \<^verbatim>\<open>int\<close> (\<^verbatim>\<open>True\<close> is the integer 1), and its panel.
\<close>

definition is_even :: "pyval \<Rightarrow> py_error + bool" where
  "is_even v = (case v of PInt i \<Rightarrow> Inr (even i) | PBool b \<Rightarrow> Inr (\<not> b) | _ \<Rightarrow> Inl TypeError)"

definition field_even :: config_field where
  "field_even = field_n\<lparr>validation_func := Some is_even\<rparr>"

definition panel_even :: config_panel where
  "panel_even = snd (add_field (panel_init ''demo'' (client_init default_config ''sess_1'') noon)
                       field_even)"

text \<open>
  A client built with \<^verbatim>\<open>HawkConfig(thread_safe=False, graceful_fallback=False)\<close>, which
  writes in the caller's thread and re-raises what goes wrong there; a panel on it with a
  field \<^verbatim>\<open>tags\<close> of type \<^verbatim>\<open>"string"\<close>, and one with the field \<^verbatim>\<open>n\<close> whose client has
  lost its output stream after the field was added (the consumer has closed the pipe,
  and \<^verbatim>\<open>print\<close> raises \<^verbatim>\<open>BrokenPipeError\<close>, an \<^verbatim>\<open>OSError\<close>).
\<close>

definition strict_client :: hawk_client where
  "strict_client =
     client_init (default_config\<lparr>thread_safe := False, graceful_fallback := False\<rparr>) ''sess_1''"

definition field_tags :: config_field where
  "field_tags =
     \<lparr>key = ''tags'', field_type = ''string'', description = [], default_value = PNone,
      required = False, min_value = None, max_value = None,
      options = None, restart_required = False, validation_func = None,
      category = ''General''\<rparr>"

definition panel_tags :: config_panel where
  "panel_tags = snd (add_field (panel_init ''demo'' strict_client noon) field_tags)"

definition panel_n_closed :: config_panel where
  "panel_n_closed =
     (let p = snd (add_field (panel_init ''demo'' strict_client noon) field_n)
      in p\<lparr>panel_client := (panel_client p)\<lparr>sink_ok := False\<rparr>\<rparr>)"

section \<open>Progress tracker\<close>

text \<open>
  How a call ends: it returns, it raises (the state is what the call left behind), it
  waits forever for a lock, or the model's fuel ran out.
\<close>

datatype 'a outcome = Returned 'a | Raised py_error 'a | Blocked | OutOfFuel

text \<open>
  A progress record (the dict \<^verbatim>\<open>progress_data\<close>). The children of a record are kept in
  the order they were added. Times are seconds since the epoch; floats are the reals
  they denote, and an estimated completion is the instant whose ISO text the code stores.
\<close>

record progress_data =
  prog_id :: string
  prog_label :: string
  total :: real
  current :: real
  prog_unit :: string
  start_time :: real
  last_update :: real
  parent_id :: "string option"
  children :: "string list"
  estimated_completion :: "real option"
  end_time :: "real option"
  success :: "bool option"
  duration :: "real option"

text \<open>
  The tracker: the two maps, the lock (\<^verbatim>\<open>threading.Lock()\<close>, which is not reentrant),
  the wall clock (\<open>clock k\<close> is what the \<open>k\<close>-th reading of \<^verbatim>\<open>time.time()\<close> or
  \<^verbatim>\<open>datetime.now\<close> returns), and the envelopes handed to the client.
\<close>

record tracker =
  active_progress :: "string \<rightharpoonup> progress_data"
  progress_history :: "string \<rightharpoonup> progress_data"
  lock_held :: bool
  clock :: "nat \<Rightarrow> real"
  ticks :: nat
  tracker_sent :: "sent list"

definition tracker_init :: "(nat \<Rightarrow> real) \<Rightarrow> tracker" where
  "tracker_init c =
     \<lparr>active_progress = Map.empty, progress_history = Map.empty, lock_held = False,
      clock = c, ticks = 0, tracker_sent = []\<rparr>"

definition read_clock :: "tracker \<Rightarrow> real \<times> tracker" where
  "read_clock t = (clock t (ticks t), t\<lparr>ticks := ticks t + 1\<rparr>)"

text \<open>
  A call \<^verbatim>\<open>client.progress(progress_id, label, current, total, **keywords)\<close> of the method
  \<^verbatim>\<open>progress(self, progress_id, label, current, total, unit="", status="in_progress",
  details=None, **kwargs)\<close>: Python binds the four positional arguments first, and a
  keyword that names one of them again is a \<^verbatim>\<open>TypeError\<close> (multiple values for the
  argument), as is a keyword given twice. Otherwise the body builds the parameters of
  the \<^verbatim>\<open>hawk.progress\<close> envelope.
\<close>

definition kw_get :: "(string \<times> pyval) list \<Rightarrow> string \<Rightarrow> pyval \<Rightarrow> pyval" where
  "kw_get kw k d = (case map_of kw k of None \<Rightarrow> d | Some v \<Rightarrow> v)"

fun truthy_str :: "pyval \<Rightarrow> bool" where
  "truthy_str (PStr s) = (s \<noteq> [])"
| "truthy_str PNone = False"
| "truthy_str v = True"

definition client_progress ::
  "string \<Rightarrow> string \<Rightarrow> real \<Rightarrow> real \<Rightarrow> (string \<times> pyval) list \<Rightarrow> py_error + sent" where
  "client_progress pid lbl cur tot kw =
     (if list_ex (\<lambda>k. k \<in> set [''progress_id'', ''label'', ''current'', ''total'']) (map fst kw)
         \<or> \<not> distinct (map fst kw)
      then Inl TypeError
      else
        (let unit = kw_get kw ''unit'' (PStr []);
             status = kw_get kw ''status'' (PStr ''in_progress'');
             details = kw_get kw ''details'' PNone;
             kwargs = filter (\<lambda>(k, v). k \<notin> set [''unit'', ''status'', ''details'']) kw;
             params = [(''id'', PStr pid), (''label'', PStr lbl),
                       (''current'', PFloat (Finite cur)), (''total'', PFloat (Finite tot)),
                       (''status'', status)]
                      @ (if truthy_str unit then [(''unit'', unit)] else [])
                      @ (if truthy_str details then [(''details'', details)] else [])
         in Inr (''hawk.progress'', PDict (fold (\<lambda>(k, v) d. dict_set d k v) kwargs params))))"

text \<open>\<^verbatim>\<open>ProgressTracker.start\<close>.\<close>

definition start ::
  "tracker \<Rightarrow> string \<Rightarrow> string \<Rightarrow> real \<Rightarrow> string \<Rightarrow> string option \<Rightarrow> tracker outcome" where
  "start t pid lbl tot unit parent =
     (if lock_held t then Blocked
      else
        (let t1 = t\<lparr>lock_held := True\<rparr>;
             (t_start, t2) = read_clock t1;
             (t_last, t3) = read_clock t2;
             pd = \<lparr>prog_id = pid, prog_label = lbl, total = tot, current = 0, prog_unit = unit,
                   start_time = t_start, last_update = t_last, parent_id = parent,
                   children = [], estimated_completion = None, end_time = None,
                   success = None, duration = None\<rparr>;
             t4 = t3\<lparr>active_progress := (active_progress t3)(pid \<mapsto> pd)\<rparr>;
             t5 = (case parent of
                     None \<Rightarrow> t4
                   | Some par \<Rightarrow>
                       (if par = [] then t4
                        else (case active_progress t4 par of
                                None \<Rightarrow> t4
                              | Some ppd \<Rightarrow>
                                  t4\<lparr>active_progress := (active_progress t4)
                                       (par \<mapsto> ppd\<lparr>children :=
                                          (if pid \<in> set (children ppd) then children ppd
                                           else children ppd @ [pid])\<rparr>)\<rparr>)));
             t6 = t5\<lparr>lock_held := False\<rparr>
         in (case client_progress pid lbl 0 tot [(''unit'', PStr unit), (''status'', PStr ''pending'')] of
               Inl e \<Rightarrow> Raised e t6
             | Inr env \<Rightarrow> Returned (t6\<lparr>tracker_sent := tracker_sent t6 @ [env]\<rparr>))))"

text \<open>
  \<^verbatim>\<open>ProgressTracker.update\<close>. \<^verbatim>\<open>timedelta(seconds=...)\<close> raises \<^verbatim>\<open>OverflowError\<close> beyond
  999999999 days, and so does a sum outside the years 1 to 9999, inside the \<^verbatim>\<open>with\<close>
  block, which releases the lock on the way out. The default \<^verbatim>\<open>details\<close> text is an
  f-string of the two numbers; only its prefix is modelled.
  The final call passes \<^verbatim>\<open>current\<close> positionally and the dict \<^verbatim>\<open>params\<close>, which holds
  the key \<^verbatim>\<open>"current"\<close>, as keywords.
\<close>

definition eta_overflows :: "real \<Rightarrow> real \<Rightarrow> bool" where
  "eta_overflows t_now eta_seconds =
     (eta_seconds \<ge> 86400 * 1000000000 \<or> eta_seconds < - (86400 * 999999999)
      \<or> t_now + eta_seconds \<ge> 253402300800 \<or> t_now + eta_seconds < - 62135596800)"

definition progress_text :: "real \<Rightarrow> real \<Rightarrow> string" where
  "progress_text cur tot = ''Progress: ''"

definition update :: "tracker \<Rightarrow> string \<Rightarrow> real \<Rightarrow> string option \<Rightarrow> tracker outcome" where
  "update t pid cur details =
     (if lock_held t then Blocked
      else
        (let t1 = t\<lparr>lock_held := True\<rparr>
         in (case active_progress t1 pid of
               None \<Rightarrow> Returned (t1\<lparr>lock_held := False\<rparr>)
             | Some pd0 \<Rightarrow>
                 (let (t_now, t2) = read_clock t1;
                      pd1 = pd0\<lparr>current := cur, last_update := t_now\<rparr>;
                      elapsed = last_update pd1 - start_time pd1;
                      eta_seconds = (total pd1 - cur) / (cur / elapsed);
                      computes = (elapsed > 0 \<and> cur > 0 \<and> cur / elapsed > 0);
                      (t_eta, t3) = (if computes then read_clock t2 else (0, t2));
                      pd2 = (if computes then pd1\<lparr>estimated_completion := Some (t_eta + eta_seconds)\<rparr>
                             else pd1);
                      t4 = t3\<lparr>active_progress := (active_progress t3)(pid \<mapsto> pd2)\<rparr>
                  in if computes \<and> eta_overflows t_eta eta_seconds
                     then Raised OverflowError
                            (t3\<lparr>active_progress := (active_progress t3)(pid \<mapsto> pd1),
                                lock_held := False\<rparr>)
                     else
                       (let t5 = t4\<lparr>lock_held := False\<rparr>;
                            params = [(''current'', PFloat (Finite cur)),
                                      (''details'', PStr (case details of
                                                           None \<Rightarrow> progress_text cur (total pd2)
                                                         | Some s \<Rightarrow> if s = [] then progress_text cur (total pd2) else s))]
                                     @ (case estimated_completion pd2 of
                                          None \<Rightarrow> []
                                        | Some eta \<Rightarrow> [(''estimated_completion'', PFloat (Finite eta))])
                        in (case client_progress pid (prog_label pd2) cur (total pd2)
                                   ((''unit'', PStr (prog_unit pd2)) # params) of
                              Inl e \<Rightarrow> Raised e t5
                            | Inr env \<Rightarrow> Returned (t5\<lparr>tracker_sent := tracker_sent t5 @ [env]\<rparr>)))))))"

text \<open>
  \<^verbatim>\<open>ProgressTracker.complete\<close>. The loop over the children calls \<^verbatim>\<open>self.complete\<close>
  inside the \<^verbatim>\<open>with self._lock\<close> block, so each of those calls starts by acquiring the
  lock its caller holds.
\<close>

fun complete :: "nat \<Rightarrow> tracker \<Rightarrow> string \<Rightarrow> bool \<Rightarrow> string option \<Rightarrow> tracker outcome" where
  "complete 0 t pid ok final_message = OutOfFuel"
| "complete (Suc n) t pid ok final_message =
     (if lock_held t then Blocked
      else
        (let t1 = t\<lparr>lock_held := True\<rparr>
         in (case active_progress t1 pid of
               None \<Rightarrow> Returned (t1\<lparr>lock_held := False\<rparr>)
             | Some pd0 \<Rightarrow>
                 (case fold (\<lambda>child acc. case acc of
                                            Returned t' \<Rightarrow> complete n t' child ok None
                                          | other \<Rightarrow> other)
                            (children pd0) (Returned t1) of
                    Returned t2 \<Rightarrow>
                      (let (t_end, t3) = read_clock t2;
                           pd1 = pd0\<lparr>end_time := Some t_end, success := Some ok,
                                    duration := Some (t_end - start_time pd0)\<rparr>;
                           t4 = t3\<lparr>progress_history := (progress_history t3)(pid \<mapsto> pd1),
                                   active_progress := (active_progress t3)(pid := None),
                                   lock_held := False\<rparr>;
                           details = (case final_message of
                                        None \<Rightarrow> if ok then ''Operation completed'' else ''Operation failed''
                                      | Some s \<Rightarrow> if s = [] then (if ok then ''Operation completed''
                                                                     else ''Operation failed'')
                                                   else s)
                       in (case client_progress pid (prog_label pd1) (total pd1) (total pd1)
                                  [(''unit'', PStr (prog_unit pd1)),
                                   (''status'', PStr (if ok then ''completed'' else ''error'')),
                                   (''details'', PStr details)] of
                             Inl e \<Rightarrow> Raised e t4
                           | Inr env \<Rightarrow> Returned (t4\<lparr>tracker_sent := tracker_sent t4 @ [env]\<rparr>)))
                  | Raised e t2 \<Rightarrow> Raised e (t2\<lparr>lock_held := False\<rparr>)
                  | other \<Rightarrow> other))))"

text \<open>
  For the concrete examples: a clock that advances five seconds per reading from 100,
  the tracker after \<^verbatim>\<open>start("t", "Task", 10)\<close>, and the tracker after
  \<^verbatim>\<open>start("p", "Parent", 2)\<close> and \<^verbatim>\<open>start("c", "Child", 5, parent_id="p")\<close>.
\<close>

definition demo_clock :: "nat \<Rightarrow> real" where
  "demo_clock k = 100 + 5 * real k"

definition started :: "tracker outcome \<Rightarrow> tracker" where
  "started r = (case r of Returned t \<Rightarrow> t | _ \<Rightarrow> tracker_init demo_clock)"

definition tracker_t :: tracker where
  "tracker_t = started (start (tracker_init demo_clock) ''t'' ''Task'' 10 [] None)"

definition tracker_pc :: tracker where
  "tracker_pc =
     started (start (started (start (tracker_init demo_clock) ''p'' ''Parent'' 2 [] None))
                    ''c'' ''Child'' 5 [] (Some ''p''))"

section \<open>Example clients and messages\<close>





text \<open>
  The one document that a flush of a batch is to write, as the specification words it:
  the envelope itself for a batch of exactly one message, a JSON array of the envelopes
  for two or more. The envelopes take the next sequence numbers of the client.
\<close>

definition batch_document :: "hawk_client \<Rightarrow> hawk_message list \<Rightarrow> json" where
  "batch_document c msgs =
     (case batch_envelopes c (sequence c) msgs of
        [e] \<Rightarrow> to_json e
      | es \<Rightarrow> JArr (map to_json es))"

section \<open>Audit log\<close>

text \<open>
  The interpreter's part in the checksum: \<open>dumps env v\<close> is the text \<^verbatim>\<open>json.dumps\<close>
  produces for a value, and \<open>sha256_16 env s\<close> is
  \<^verbatim>\<open>hashlib.sha256(s.encode()).hexdigest()[:16]\<close>.
\<close>

record audit_env =
  dumps :: "pyval \<Rightarrow> string"
  sha256_16 :: "string \<Rightarrow> string"

text \<open>
  The dict \<^verbatim>\<open>event\<close>. Its key \<^verbatim>\<open>"checksum"\<close> is either absent (after
  \<^verbatim>\<open>event.pop("checksum", None)\<close>) or holds a value: \<^verbatim>\<open>None\<close> while the checksum is
  computed in \<^verbatim>\<open>_log_audit_event\<close>, the hexadecimal text afterwards.
\<close>

record audit_event =
  ev_timestamp :: string
  ev_session_id :: string
  ev_sequence :: int
  ev_type :: string
  ev_data :: pyval
  ev_source_ip :: string
  ev_checksum :: "pyval option"

text \<open>
  \<^verbatim>\<open>json.dumps(event, sort_keys=True)\<close>: the members in the order of their keys, each as
  the quoted key, a colon and a space, and the text of the value; a comma and a space
  between members.
\<close>

definition quoted :: "string \<Rightarrow> string" where
  "quoted s = CHR 0x22 # s @ [CHR 0x22]"

fun join_with :: "string \<Rightarrow> string list \<Rightarrow> string" where
  "join_with sep [] = []"
| "join_with sep [x] = x"
| "join_with sep (x # y # ys) = x @ sep @ join_with sep (y # ys)"

definition sorted_items :: "audit_event \<Rightarrow> (string \<times> pyval) list" where
  "sorted_items e =
     (case ev_checksum e of None \<Rightarrow> [] | Some c \<Rightarrow> [(''checksum'', c)])
     @ [(''data'', ev_data e), (''event_type'', PStr (ev_type e)),
        (''sequence'', PInt (ev_sequence e)), (''session_id'', PStr (ev_session_id e)),
        (''source_ip'', PStr (ev_source_ip e)), (''timestamp'', PStr (ev_timestamp e))]"

definition dumps_sorted :: "audit_env \<Rightarrow> audit_event \<Rightarrow> string" where
  "dumps_sorted env e =
     ''{'' @ join_with '', '' (map (\<lambda>kv. quoted (fst kv) @ '': '' @ dumps env (snd kv))
                                  (sorted_items e)) @ ''}''"

text \<open>The event as the value handed to the client, its keys in insertion order.\<close>

definition event_dict :: "audit_event \<Rightarrow> pyval" where
  "event_dict e =
     PDict ([(''timestamp'', PStr (ev_timestamp e)), (''session_id'', PStr (ev_session_id e)),
             (''sequence'', PInt (ev_sequence e)), (''event_type'', PStr (ev_type e)),
             (''data'', ev_data e), (''source_ip'', PStr (ev_source_ip e))]
            @ (case ev_checksum e of None \<Rightarrow> [] | Some c \<Rightarrow> [(''checksum'', c)]))"

text \<open>
  A line of the audit file is represented by what \<^verbatim>\<open>json.loads\<close> makes of it: an event
  with the six members and possibly a checksum (values written by \<^verbatim>\<open>json.dumps\<close> are
  taken to read back unchanged), or a \<^verbatim>\<open>JSONDecodeError\<close>. Lines that hold some other
  JSON document are not modelled.
\<close>

datatype audit_line = Parsed audit_event | Unparsable

text \<open>
  The logger: its client, the clock (\<open>audit_now lg k\<close> is the text of the \<open>k\<close>-th reading
  of \<^verbatim>\<open>datetime.now\<close>), whether an audit file is configured, the lines of the file if it
  exists, whether appending to it succeeds, the session id, the sequence counter, and the
  address \<^verbatim>\<open>_get_source_ip\<close> returns.
\<close>

record audit_logger =
  audit_client :: hawk_client
  audit_now :: "nat \<Rightarrow> string"
  audit_reads :: nat
  audit_path_set :: bool
  audit_lines :: "audit_line list option"
  audit_disk_ok :: bool
  audit_session :: string
  audit_seq :: int
  source_ip :: string

text \<open>
  The calls of the client made by the logger, each with the exception that comes out of
  it, if any: \<^verbatim>\<open>_send_message_async\<close>, \<^verbatim>\<open>log(message, level)\<close> behind
  \<^verbatim>\<open>client.error\<close> and \<^verbatim>\<open>client.warn\<close> (outside any \<^verbatim>\<open>hawk.context\<close> block), and
  \<^verbatim>\<open>client.event("audit_event", title, severity="info", data=event)\<close>.
\<close>

definition audit_send :: "audit_logger \<Rightarrow> string \<Rightarrow> pyval \<Rightarrow> py_error option \<times> audit_logger" where
  "audit_send lg method params =
     (if client_shutdown (audit_client lg) then (None, lg)
      else
        (let r = send_message_async (audit_client lg) method params None
                   (audit_now lg (audit_reads lg))
         in (fst r, lg\<lparr>audit_client := snd r, audit_reads := audit_reads lg + 1\<rparr>)))"

definition audit_log :: "audit_logger \<Rightarrow> string \<Rightarrow> string \<Rightarrow> py_error option \<times> audit_logger" where
  "audit_log lg message level =
     audit_send (lg\<lparr>audit_reads := audit_reads lg + 1\<rparr>) ''hawk.log''
       (PDict [(''message'', PStr message), (''level'', PStr level),
               (''timestamp'', PStr (audit_now lg (audit_reads lg)))])"

definition audit_client_event :: "audit_logger \<Rightarrow> audit_event \<Rightarrow> py_error option \<times> audit_logger" where
  "audit_client_event lg e =
     audit_send (lg\<lparr>audit_reads := audit_reads lg + 1\<rparr>) ''hawk.event''
       (PDict [(''type'', PStr ''audit_event''), (''title'', PStr (''Audit: '' @ ev_type e)),
               (''severity'', PStr ''info''),
               (''timestamp'', PStr (audit_now lg (audit_reads lg))),
               (''data'', event_dict e)])"

text \<open>
  \<^verbatim>\<open>AuditLogger._log_audit_event(event_type, data)\<close>: the exception it raises, if any,
  and the logger afterwards. The checksum is taken from the text of the event with its
  \<^verbatim>\<open>"checksum"\<close> member set to \<^verbatim>\<open>None\<close>; \<^verbatim>\<open>json.dumps\<close> raises \<^verbatim>\<open>TypeError\<close> on data it
  cannot encode. A failure to append the line is reported with \<^verbatim>\<open>client.error\<close>; only
  the fixed part of that message is modelled.
\<close>

definition log_audit_event ::
  "audit_env \<Rightarrow> audit_logger \<Rightarrow> string \<Rightarrow> pyval \<Rightarrow> py_error option \<times> audit_logger" where
  "log_audit_event env lg event_type data =
     (let lg1 = lg\<lparr>audit_seq := audit_seq lg + 1, audit_reads := audit_reads lg + 1\<rparr>;
          event = \<lparr>ev_timestamp = audit_now lg (audit_reads lg),
                   ev_session_id = audit_session lg1, ev_sequence = audit_seq lg1,
                   ev_type = event_type, ev_data = data, ev_source_ip = source_ip lg1,
                   ev_checksum = Some PNone\<rparr>
      in if \<not> jsonable data then (Some TypeError, lg1)
         else
           (let event_str = dumps_sorted env event;
                event' = event\<lparr>ev_checksum := Some (PStr (sha256_16 env event_str))\<rparr>;
                w = (if audit_path_set lg1
                     then (if audit_disk_ok lg1
                           then (None, lg1\<lparr>audit_lines :=
                                   Some ((case audit_lines lg1 of None \<Rightarrow> [] | Some ls \<Rightarrow> ls)
                                         @ [Parsed event'])\<rparr>)
                           else audit_log lg1 ''Audit log write failed'' ''ERROR'')
                     else (None, lg1))
            in (case fst w of
                  Some err \<Rightarrow> (Some err, snd w)
                | None \<Rightarrow> audit_client_event (snd w) event')))"

text \<open>\<^verbatim>\<open>AuditLogger.log_access\<close>, with \<^verbatim>\<open>details or {}\<close>.\<close>

definition log_access ::
  "audit_env \<Rightarrow> audit_logger \<Rightarrow> string \<Rightarrow> string \<Rightarrow> string \<Rightarrow> string \<Rightarrow> pyval
     \<Rightarrow> py_error option \<times> audit_logger" where
  "log_access env lg user resource action result details =
     log_audit_event env lg ''access''
       (PDict [(''user'', PStr user), (''resource'', PStr resource), (''action'', PStr action),
               (''result'', PStr result),
               (''details'', if details = PNone then PDict [] else details)])"

text \<open>
  \<^verbatim>\<open>AuditLogger.verify_integrity\<close>: the report and the logger afterwards. The loop over
  the lines recomputes the checksum from the text of the event without its
  \<^verbatim>\<open>"checksum"\<close> member and compares it with the stored one (\<^verbatim>\<open>None\<close> if the member is
  missing). A mismatch is reported with \<^verbatim>\<open>client.warn\<close> (only the fixed part of the
  message is modelled), and an exception of that call ends the scan with the status
  \<^verbatim>\<open>"error"\<close>. The integrity ratio of the report is a function of the two counts.
\<close>

datatype integrity_report = NoAuditFile | Completed nat nat | ScanError py_error

fun verify_lines ::
  "audit_env \<Rightarrow> audit_logger \<Rightarrow> audit_line list \<Rightarrow> nat \<Rightarrow> nat \<Rightarrow> integrity_report \<times> audit_logger" where
  "verify_lines env lg [] verified corrupted = (Completed verified corrupted, lg)"
| "verify_lines env lg (Unparsable # ls) verified corrupted =
     verify_lines env lg ls verified (corrupted + 1)"
| "verify_lines env lg (Parsed e # ls) verified corrupted =
     (let stored_checksum = (case ev_checksum e of None \<Rightarrow> PNone | Some c \<Rightarrow> c);
          calculated_checksum = sha256_16 env (dumps_sorted env (e\<lparr>ev_checksum := None\<rparr>))
      in if stored_checksum = PStr calculated_checksum
         then verify_lines env lg ls (verified + 1) corrupted
         else (let w = audit_log lg ''Audit log corruption detected at line '' ''WARN''
               in (case fst w of
                     Some err \<Rightarrow> (ScanError err, snd w)
                   | None \<Rightarrow> verify_lines env (snd w) ls verified (corrupted + 1))))"

definition verify_integrity :: "audit_env \<Rightarrow> audit_logger \<Rightarrow> integrity_report \<times> audit_logger" where
  "verify_integrity env lg =
     (if \<not> audit_path_set lg then (NoAuditFile, lg)
      else (case audit_lines lg of
              None \<Rightarrow> (NoAuditFile, lg)
            | Some ls \<Rightarrow> verify_lines env lg ls 0 0))"

text \<open>
  A line as \<^verbatim>\<open>_log_audit_event\<close> writes it: an event whose stored checksum is the digest
  of its text with the \<^verbatim>\<open>"checksum"\<close> member set to \<^verbatim>\<open>None\<close>. The digest collides on a
  line if it gives that text and the text without the member the same value.
\<close>

fun as_written :: "audit_env \<Rightarrow> audit_line \<Rightarrow> bool" where
  "as_written env (Parsed e) =
     (ev_checksum e =
        Some (PStr (sha256_16 env (dumps_sorted env (e\<lparr>ev_checksum := Some PNone\<rparr>)))))"
| "as_written env Unparsable = False"

fun collides :: "audit_env \<Rightarrow> audit_line \<Rightarrow> bool" where
  "collides env (Parsed e) =
     (sha256_16 env (dumps_sorted env (e\<lparr>ev_checksum := Some PNone\<rparr>))
        = sha256_16 env (dumps_sorted env (e\<lparr>ev_checksum := None\<rparr>)))"
| "collides env Unparsable = False"

text \<open>
  For the concrete examples: a stand-in for the interpreter that writes \<^verbatim>\<open>None\<close>,
  booleans, integers, lists, dicts and strings free of characters to escape as
  \<^verbatim>\<open>json.dumps\<close> does (floats, which the examples do not use, are all written
  \<^verbatim>\<open>NaN\<close>), and takes the first 16 characters of a text as its digest; a new logger on
  an audit file with a default client; and that logger after two \<^verbatim>\<open>log_access\<close> calls.
\<close>

fun decimal_digits :: "nat \<Rightarrow> nat \<Rightarrow> string" where
  "decimal_digits 0 n = []"
| "decimal_digits (Suc fuel) n =
     (if n < 10 then [char_of (48 + n)]
      else decimal_digits fuel (n div 10) @ [char_of (48 + n mod 10)])"

definition decimal :: "int \<Rightarrow> string" where
  "decimal i =
     (if i < 0 then ''-'' @ decimal_digits (Suc (nat (- i))) (nat (- i))
      else decimal_digits (Suc (nat i)) (nat i))"

fun demo_dumps :: "pyval \<Rightarrow> string" where
  "demo_dumps PNone = ''null''"
| "demo_dumps (PBool b) = (if b then ''true'' else ''false'')"
| "demo_dumps (PInt i) = decimal i"
| "demo_dumps (PStr s) = quoted s"
| "demo_dumps (PList vs) = ''['' @ join_with '', '' (map demo_dumps vs) @ '']''"
| "demo_dumps (PDict kvs) =
     ''{'' @ join_with '', '' (map (\<lambda>kv. quoted (fst kv) @ '': '' @ demo_dumps (snd kv)) kvs)
     @ ''}''"
| "demo_dumps v = ''NaN''"

definition demo_env :: audit_env where
  "demo_env = \<lparr>dumps = demo_dumps, sha256_16 = take 16\<rparr>"

definition demo_logger :: audit_logger where
  "demo_logger =
     \<lparr>audit_client = client_init default_config ''sess_1'', audit_now = noon, audit_reads = 0,
      audit_path_set = True, audit_lines = None, audit_disk_ok = True,
      audit_session = ''7c9e6679-7425-40de-944b-e07fc1f90ae7'', audit_seq = 0,
      source_ip = ''127.0.0.1''\<rparr>"

definition demo_logged :: audit_logger where
  "demo_logged =
     snd (log_access demo_env
            (snd (log_access demo_env demo_logger ''alice'' ''db'' ''read'' ''success'' PNone))
            ''bob'' ''db'' ''write'' ''denied'' PNone)"

section \<open>Properties of the dashboard layout\<close>

lemma add_widget_not_default:
  assumes "wlayout (config w) \<noteq> default_layout"
  shows "add_widget dname d w =
     send_widget_update dname
       ((if refresh_rate (config w) > 0
         then d\<lparr>widgets := (widgets d)(widget_id (config w) \<mapsto> w),
                refresh_threads := insert (widget_id (config w)) (refresh_threads d)\<rparr>
         else d\<lparr>widgets := (widgets d)(widget_id (config w) \<mapsto> w)\<rparr>)) w PNone"
  using assms by (simp add: add_widget_def Let_def)

lemma send_widget_update_frame:
  "config (snd (send_widget_update dname d w x)) = config w"
  "fst (send_widget_update dname d w x) = Inr d' \<Longrightarrow>
     next_row d' = next_row d \<and> next_col d' = next_col d \<and> widgets d' = widgets d"
  by (auto simp add: send_widget_update_def get_data_def Let_def
      split: if_splits sum.splits prod.splits widget_kind.splits pyval.splits)

lemma widget_init_layout:
  "row kw = None \<or> col kw = None \<Longrightarrow>
     wlayout (widget_init wid ttl wtype rate kw) \<noteq> default_layout
     \<and> row (wlayout (widget_init wid ttl wtype rate kw)) = row kw
     \<and> col (wlayout (widget_init wid ttl wtype rate kw)) = col kw"
  by (auto simp add: widget_init_def default_layout_def no_kwargs_def)

lemma widget_init_id [simp]: "widget_id (widget_init wid ttl wtype rate kw) = wid"
  by (simp add: widget_init_def)

text \<open>
  The one layout that \<^verbatim>\<open>_add_widget\<close> does hand to \<^verbatim>\<open>_auto_layout\<close> is the explicit
  rectangle \<^verbatim>\<open>row=0, col=0, width=4, height=3\<close>: a widget created with exactly these
  keywords is moved to the running offset.
\<close>

lemma add_widget_default_rectangle:
  assumes "wlayout (config w) = default_layout"
  shows "wlayout (config (snd (add_widget dname d w))) = fst (auto_layout d 4 3)"
  using assms
  by (simp add: add_widget_def Let_def default_layout_def send_widget_update_frame(1)
      split: prod.splits)

text \<open>
  C6, on the code: a widget created without an explicit position (no \<^verbatim>\<open>row\<close> or no
  \<^verbatim>\<open>col\<close> among its layout keywords, whatever its width) is not auto-placed by
  \<^verbatim>\<open>_add_widget\<close>. Its layout is left without the position it lacked, the running row
  and column offsets of the dashboard do not move, and the widget is stored with the
  layout it came with. The test that guards \<^verbatim>\<open>_auto_layout\<close> compares the layout with
  the dict \<^verbatim>\<open>{"row": 0, "col": 0, "width": 4, "height": 3}\<close>, which a widget created
  without a position never carries.
\<close>

theorem add_widget_never_places:
  assumes "config w = widget_init wid ttl wtype rate kw" and "row kw = None \<or> col kw = None"
  shows "row (wlayout (config (snd (add_widget dname d w)))) = row kw
     \<and> col (wlayout (config (snd (add_widget dname d w)))) = col kw
     \<and> (case fst (add_widget dname d w) of
          Inl e \<Rightarrow> True
        | Inr d' \<Rightarrow> next_row d' = next_row d \<and> next_col d' = next_col d
                    \<and> map_option (\<lambda>s. wlayout (config s)) (widgets d' wid)
                        = Some (wlayout (config w)))"
proof -
  from widget_init_layout [OF assms(2), of wid ttl wtype rate] assms(1)
  have n: "wlayout (config w) \<noteq> default_layout"
    and r: "row (wlayout (config w)) = row kw" "col (wlayout (config w)) = col kw"
    by simp_all
  have i: "widget_id (config w) = wid" using assms(1) by simp
  show ?thesis
    unfolding add_widget_not_default [OF n]
    using r i
    by (auto simp add: send_widget_update_frame(1) split: sum.splits
        dest!: send_widget_update_frame(2))
qed

text \<open>
  Four widgets of width 5 added to a new dashboard: none of them gets a row or a column,
  each keeps the layout \<^verbatim>\<open>{"width": 5}\<close>, and the running offsets are still at 0.
\<close>

theorem add_widget_never_places_witness:
  "config (metric5 ''a'') = widget_init ''a'' ''a'' ''gauge'' 1
       \<lparr>row = None, col = None, width = Some 5, height = None\<rparr>
   \<and> row (wlayout (config (snd (add_widget ''demo'' dashboard_init (metric5 ''a''))))) = None
   \<and> col (wlayout (config (snd (add_widget ''demo'' dashboard_init (metric5 ''a''))))) = None
   \<and> (\<exists>d' ws. add_widgets ''demo'' dashboard_init
                  [metric5 ''a'', metric5 ''b'', metric5 ''c'', metric5 ''e''] = (Inr d', ws)
          \<and> map (\<lambda>w. layout_dict (wlayout (config w))) ws
               = [PDict [(''width'', PInt 5)], PDict [(''width'', PInt 5)],
                  PDict [(''width'', PInt 5)], PDict [(''width'', PInt 5)]]
          \<and> next_row d' = 0 \<and> next_col d' = 0)"
proof -
  have a: "config (metric5 ''a'') = widget_init ''a'' ''a'' ''gauge'' 1
       \<lparr>row = None, col = None, width = Some 5, height = None\<rparr>"
    by (simp add: metric5_def)
  have b: "row \<lparr>row = None, col = None, width = Some 5, height = None\<rparr> = (None :: int option)
         \<or> col \<lparr>row = None, col = None, width = Some 5, height = None\<rparr> = (None :: int option)"
    by simp
  have c: "\<exists>d' ws. add_widgets ''demo'' dashboard_init
                  [metric5 ''a'', metric5 ''b'', metric5 ''c'', metric5 ''e''] = (Inr d', ws)
          \<and> map (\<lambda>w. layout_dict (wlayout (config w))) ws
               = [PDict [(''width'', PInt 5)], PDict [(''width'', PInt 5)],
                  PDict [(''width'', PInt 5)], PDict [(''width'', PInt 5)]]
          \<and> next_row d' = 0 \<and> next_col d' = 0"
    by (simp add: metric5_def add_widget_def widget_init_def default_layout_def no_kwargs_def
        send_widget_update_def get_data_def dashboard_init_def layout_dict_def Let_def)
  show ?thesis
    using add_widget_never_places [OF a b, of "''demo''" dashboard_init] a c by simp
qed

section \<open>Properties of the refresh loop\<close>

lemma remove_widget_flags [simp]:
  "shutdown_flag (remove_widget d wid) = shutdown_flag d"
  "outbox (remove_widget d wid) = outbox d"
  by (simp_all add: remove_widget_def Let_def)

lemma get_data_metric:
  assumes "kind w = Metric u" "data_func w (calls w) = Inr v"
  shows "get_data w =
    (Inr (PDict [(''value'', v), (''unit'', PStr u), (''timestamp'', PStr (stamp w (calls w)))]),
     w\<lparr>calls := calls w + 1\<rparr>)"
  using assms by (simp add: get_data_def Let_def)

lemma refresh_body_metric:
  assumes "kind w = Metric u" "data_func w (calls w) = Inr v"
  shows "refresh_body dname d w =
    (d\<lparr>outbox := outbox d @
       [(''hawk.dashboard'',
         PDict [(''widget_id'', PStr (widget_id (config w))),
                (''type'', PStr (widget_type (config w))),
                (''title'', PStr (title (config w))),
                (''data'', PDict [(''value'', v), (''unit'', PStr u),
                                  (''timestamp'', PStr (stamp w (calls w)))]),
                (''layout'', layout_dict (wlayout (config w))),
                (''dashboard'', PStr dname)])]\<rparr>,
     w\<lparr>calls := calls w + 1\<rparr>)"
  using assms by (simp add: refresh_body_def get_data_metric send_widget_update_def Let_def)

text \<open>
  The loop of a metric widget whose data source returns values: while the dashboard is
  not shut down and the widget is enabled, every iteration sends one more
  \<^verbatim>\<open>hawk.dashboard\<close> envelope of the widget, and the loop does not leave.
\<close>

lemma refresh_worker_metric:
  assumes "\<not> shutdown_flag d" "enabled (config w)" "kind w = Metric u"
    "\<forall>k. \<exists>v. data_func w k = Inr v"
  shows "\<exists>d' w'. refresh_worker n dname d w = (Running, d', w') \<and>
      length (dashboard_envelopes (widget_id (config w)) (outbox d'))
        = length (dashboard_envelopes (widget_id (config w)) (outbox d)) + n"
  using assms
proof (induction n arbitrary: d w)
  case 0
  then show ?case by simp
next
  case (Suc n)
  from Suc.prems(4) obtain v where v: "data_func w (calls w) = Inr v" by blast
  let ?w1 = "w\<lparr>calls := calls w + 1\<rparr>"
  let ?d1 = "fst (refresh_body dname d w)"
  have b: "refresh_body dname d w = (?d1, ?w1)"
    by (simp add: refresh_body_metric [OF Suc.prems(3) v])
  have ob: "outbox ?d1 = outbox d @ [(''hawk.dashboard'',
         PDict [(''widget_id'', PStr (widget_id (config w))),
                (''type'', PStr (widget_type (config w))),
                (''title'', PStr (title (config w))),
                (''data'', PDict [(''value'', v), (''unit'', PStr u),
                                  (''timestamp'', PStr (stamp w (calls w)))]),
                (''layout'', layout_dict (wlayout (config w))),
                (''dashboard'', PStr dname)])]"
    and sf: "\<not> shutdown_flag ?d1"
    using Suc.prems(1) by (simp_all add: refresh_body_metric [OF Suc.prems(3) v])
  have "\<exists>d' w'. refresh_worker n dname ?d1 ?w1 = (Running, d', w') \<and>
      length (dashboard_envelopes (widget_id (config ?w1)) (outbox d'))
        = length (dashboard_envelopes (widget_id (config ?w1)) (outbox ?d1)) + n"
    by (rule Suc.IH) (use Suc.prems sf in simp_all)
  then obtain d' w' where r: "refresh_worker n dname ?d1 ?w1 = (Running, d', w')"
    and l: "length (dashboard_envelopes (widget_id (config w)) (outbox d'))
        = length (dashboard_envelopes (widget_id (config w)) (outbox ?d1)) + n"
    by auto
  have "refresh_worker (Suc n) dname d w = (Running, d', w')"
    using Suc.prems(1,2) r by (subst refresh_worker.simps) (subst b, simp)
  moreover have "length (dashboard_envelopes (widget_id (config w)) (outbox ?d1))
     = length (dashboard_envelopes (widget_id (config w)) (outbox d)) + 1"
    by (simp add: ob dashboard_envelopes_def)
  ultimately show ?case using l by simp
qed

text \<open>
  C8, on the code: \<^verbatim>\<open>remove_widget\<close> changes neither the shutdown flag nor the widget's
  \<^verbatim>\<open>enabled\<close> flag, the only things the loop condition reads. So after
  \<^verbatim>\<open>remove_widget(id)\<close> the loop of that widget is still running after any number \<open>n\<close> of
  iterations, and it has sent \<open>n\<close> further \<^verbatim>\<open>hawk.dashboard\<close> envelopes for the removed id.
\<close>

theorem removed_widget_keeps_refreshing:
  assumes "\<not> shutdown_flag d" "enabled (config w)" "kind w = Metric u"
    "\<forall>k. \<exists>v. data_func w k = Inr v"
  shows "\<exists>d' w'. refresh_worker n dname (remove_widget d (widget_id (config w))) w = (Running, d', w')
      \<and> length (dashboard_envelopes (widget_id (config w)) (outbox d'))
          = length (dashboard_envelopes (widget_id (config w)) (outbox d)) + n"
  using refresh_worker_metric [of "remove_widget d (widget_id (config w))" w u n dname] assms
  by simp

lemma cpu_dashboard_outbox: "\<not> shutdown_flag cpu_dashboard \<and> outbox cpu_dashboard = [(''hawk.dashboard'',
    PDict
     [(''widget_id'', PStr ''cpu''), (''type'', PStr ''gauge''),
      (''title'', PStr ''CPU''),
      (''data'',
       PDict
        [(''value'', PInt 42), (''unit'', PStr ''''),
         (''timestamp'', PStr ''2024-01-01T00:00:00+00:00'')]),
      (''layout'', PDict [(''width'', PInt 4), (''height'', PInt 3)]),
      (''dashboard'', PStr ''demo'')])]"
  by (simp add: cpu_dashboard_def add_widget_def cpu_widget_def widget_init_def default_layout_def
      send_widget_update_def get_data_def dashboard_init_def Let_def layout_dict_def no_kwargs_def)

theorem removed_widget_keeps_refreshing_witness: "\<not> shutdown_flag cpu_dashboard \<and> enabled (config cpu_widget) \<and> kind cpu_widget = Metric [] \<and>
   length (dashboard_envelopes ''cpu'' (outbox cpu_dashboard)) = 1 \<and>
   (\<exists>d' w'. refresh_worker 2 ''demo'' (remove_widget cpu_dashboard ''cpu'') cpu_widget = (Running, d', w')
      \<and> length (dashboard_envelopes ''cpu'' (outbox d')) = 1 + 2)"
proof -
  have a: "\<not> shutdown_flag cpu_dashboard" by (simp add: cpu_dashboard_outbox)
  have b: "enabled (config cpu_widget)" "kind cpu_widget = Metric []" "widget_id (config cpu_widget) = ''cpu''"
    by (simp_all add: cpu_widget_def widget_init_def)
  have c: "\<forall>k. \<exists>v. data_func cpu_widget k = Inr v" by (simp add: cpu_widget_def)
  have e: "length (dashboard_envelopes ''cpu'' (outbox cpu_dashboard)) = 1"
    by (simp add: cpu_dashboard_outbox dashboard_envelopes_def)
  from removed_widget_keeps_refreshing [OF a b(1) b(2) c, of 2 "''demo''"]
  have "\<exists>d' w'. refresh_worker 2 ''demo'' (remove_widget cpu_dashboard ''cpu'') cpu_widget = (Running, d', w')
      \<and> length (dashboard_envelopes ''cpu'' (outbox d')) = 1 + 2"
    unfolding b(3) e .
  with a b e show ?thesis by blast
qed

section \<open>Properties of the configuration panel\<close>

text \<open>
  What a send can do to its caller: a client that queues, or one that falls back
  gracefully, never raises; the configuration of the client is not touched.
\<close>

lemma send_message_async_quiet:
  "thread_safe (cfg c) \<or> graceful_fallback (cfg c) \<Longrightarrow>
     fst (send_message_async c m x i ts) = None"
  by (auto simp add: send_message_async_def flush_batch_def Let_def
      split: list.splits sum.splits option.splits prod.splits)

lemma send_message_async_cfg [simp]:
  "cfg (snd (send_message_async c m x i ts)) = cfg c"
  "client_shutdown (snd (send_message_async c m x i ts)) = client_shutdown c"
  by (auto simp add: send_message_async_def flush_batch_def Let_def
      split: list.splits sum.splits option.splits prod.splits)

lemma panel_send_frame [simp]:
  "cvalues (snd (panel_send p m x)) = cvalues p"
  "cfields (snd (panel_send p m x)) = cfields p"
  "callbacks (snd (panel_send p m x)) = callbacks p"
  "config_file (snd (panel_send p m x)) = config_file p"
  "auto_save (snd (panel_send p m x)) = auto_save p"
  "disk_ok (snd (panel_send p m x)) = disk_ok p"
  "cfg (panel_client (snd (panel_send p m x))) = cfg (panel_client p)"
  by (simp_all add: panel_send_def Let_def case_prod_beta)

lemma panel_send_quiet:
  "thread_safe (cfg (panel_client p)) \<or> graceful_fallback (cfg (panel_client p)) \<Longrightarrow>
     fst (panel_send p m x) = None"
  using send_message_async_quiet [of "panel_client p" m x None "now_iso p (now_reads p)"]
  by (simp add: panel_send_def Let_def case_prod_beta)

lemma panel_error_frame [simp]:
  "cvalues (snd (panel_error p msg)) = cvalues p"
  "cfields (snd (panel_error p msg)) = cfields p"
  "config_file (snd (panel_error p msg)) = config_file p"
  "auto_save (snd (panel_error p msg)) = auto_save p"
  "cfg (panel_client (snd (panel_error p msg))) = cfg (panel_client p)"
  by (simp_all add: panel_error_def)

lemma panel_error_quiet:
  "thread_safe (cfg (panel_client p)) \<or> graceful_fallback (cfg (panel_client p)) \<Longrightarrow>
     fst (panel_error p msg) = None"
  by (simp add: panel_error_def panel_send_quiet)

lemma send_config_update_frame [simp]:
  "cvalues (snd (send_config_update p k v)) = cvalues p"
  "cfields (snd (send_config_update p k v)) = cfields p"
  "callbacks (snd (send_config_update p k v)) = callbacks p"
  "config_file (snd (send_config_update p k v)) = config_file p"
  "auto_save (snd (send_config_update p k v)) = auto_save p"
  "cfg (panel_client (snd (send_config_update p k v))) = cfg (panel_client p)"
  by (simp_all add: send_config_update_def)

lemma call_change_callback_frame [simp]:
  "cvalues (snd (call_change_callback p k old v)) = cvalues p"
  "cfields (snd (call_change_callback p k old v)) = cfields p"
  "config_file (snd (call_change_callback p k old v)) = config_file p"
  "auto_save (snd (call_change_callback p k old v)) = auto_save p"
  "cfg (panel_client (snd (call_change_callback p k old v))) = cfg (panel_client p)"
  by (simp_all add: call_change_callback_def Let_def split: option.splits)

lemma call_change_callback_quiet:
  "thread_safe (cfg (panel_client p)) \<or> graceful_fallback (cfg (panel_client p)) \<Longrightarrow>
     fst (call_change_callback p k old v) = None"
  by (simp add: call_change_callback_def Let_def panel_error_quiet split: option.splits)

lemma save_to_file_frame [simp]:
  "cvalues (snd (save_to_file p)) = cvalues p" "cfields (snd (save_to_file p)) = cfields p"
  by (simp_all add: save_to_file_def split: option.splits)

lemma save_to_file_quiet:
  "thread_safe (cfg (panel_client p)) \<or> graceful_fallback (cfg (panel_client p)) \<Longrightarrow>
     fst (save_to_file p) = None"
  by (simp add: save_to_file_def panel_error_quiet split: option.splits)

text \<open>
  The three code-side checks against the specification's wording of them, and the two
  orders: the code tests enum membership inside the type chain, before the range check,
  the specification after it. The checks before the custom validator have no effect but
  their verdict, and the validator is the last check in both, so the two orders accept
  the same values.
\<close>

lemma range_validation_spec: "range_validation f v = spec_range_check f v"
  by (cases v; cases "min_value f"; cases "max_value f")
     (simp_all add: range_validation_def spec_range_check_def py_lt_def py_gt_def)

lemma custom_validation_spec: "custom_validation f v = spec_custom_check f v"
  by (auto simp add: custom_validation_def spec_custom_check_def split: option.splits sum.splits)

lemma validate_value_spec: "validate_value lib f v = spec_validate lib f v"
  by (auto simp add: validate_value_def spec_validate_def type_validation_def spec_type_check_def
      spec_enum_check_def range_validation_spec custom_validation_spec
      split: sum.splits pyval.splits option.splits)

lemma set_value_rejected:
  assumes "cfields p k = Some f" "\<not> validate_value lib f v"
  shows "set_value lib p k v True = (Inr False, p)"
  using assms by (simp add: set_value_def)

text \<open>
  Once the checks have passed, the value is in place whatever happens next: the call
  returns \<^verbatim>\<open>True\<close> or leaves with an exception of the client, never \<^verbatim>\<open>False\<close>; and a
  client that queues or falls back gracefully lets it return.
\<close>

lemma set_value_stored:
  assumes "cfields p k = Some f" "validate \<longrightarrow> validate_value lib f v"
  shows "cvalues (snd (set_value lib p k v validate)) = (cvalues p)(k \<mapsto> v)"
    and "cfields (snd (set_value lib p k v validate)) = cfields p"
    and "fst (set_value lib p k v validate) \<noteq> Inr False"
  using assms
  by (cases validate; simp add: set_value_def Let_def case_prod_beta option.case_eq_if)+

lemma set_value_returns:
  assumes "cfields p k = Some f" "validate \<longrightarrow> validate_value lib f v"
    and "thread_safe (cfg (panel_client p)) \<or> graceful_fallback (cfg (panel_client p))"
  shows "fst (set_value lib p k v validate) = Inr True"
  using assms
  by (cases validate; simp add: set_value_def Let_def case_prod_beta option.case_eq_if
      send_config_update_def panel_send_quiet call_change_callback_quiet save_to_file_quiet)

lemma panel_n_state:
  "cfields panel_n ''n'' = Some field_n" "cvalues panel_n ''n'' = Some (PInt 5)"
  "thread_safe (cfg (panel_client panel_n))"
  by (simp_all add: panel_n_def add_field_def panel_init_def send_config_field_def field_n_def
      panel_send_def client_init_def default_config_def Let_def case_prod_beta)

lemma panel_even_state:
  "cfields panel_even ''n'' = Some field_even" "cvalues panel_even ''n'' = Some (PInt 5)"
  "thread_safe (cfg (panel_client panel_even))"
  by (simp_all add: panel_even_def add_field_def panel_init_def send_config_field_def
      field_even_def field_n_def panel_send_def client_init_def default_config_def Let_def
      case_prod_beta)

lemma field_n_verdicts:
  "spec_validate decimal_lib field_n (PInt 15) = False"
  "spec_validate decimal_lib field_n (PInt 0) = False"
  "spec_validate decimal_lib field_n (PInt 7) = True"
  by (simp_all add: spec_validate_def spec_type_check_def field_n_def spec_range_check_def
      spec_enum_check_def spec_custom_check_def)

lemma field_even_verdicts:
  "spec_validate decimal_lib field_even (PInt 7) = False"
  "spec_validate decimal_lib field_even (PInt 8) = True"
  by (simp_all add: spec_validate_def spec_type_check_def field_even_def field_n_def
      spec_range_check_def spec_enum_check_def spec_custom_check_def is_even_def)

text \<open>
  C5, as stated, fails where the client is synchronous and not graceful
  (\<^verbatim>\<open>thread_safe=False, graceful_fallback=False\<close>): on the field \<^verbatim>\<open>tags\<close> of type
  \<^verbatim>\<open>"string"\<close> the value \<^verbatim>\<open>{"a"}\<close> passes every check, and \<^verbatim>\<open>set_value\<close> stores it and
  then raises the \<^verbatim>\<open>TypeError\<close> of the serialization instead of returning success.
\<close>

theorem set_value_raises_after_store_counterexample:
  "cfields panel_tags ''tags'' = Some field_tags
   \<and> spec_validate decimal_lib field_tags (PSet [PStr ''a''])
   \<and> fst (set_value decimal_lib panel_tags ''tags'' (PSet [PStr ''a'']) True) = Inl TypeError
   \<and> get_value (snd (set_value decimal_lib panel_tags ''tags'' (PSet [PStr ''a'']) True))
        ''tags'' PNone = PSet [PStr ''a'']"
  by (simp add: panel_tags_def add_field_def panel_init_def send_config_field_def field_tags_def
      panel_send_def strict_client_def client_init_def default_config_def Let_def
      send_message_async_def flush_batch_def json_dumps_def to_jsonrpc_def
      set_value_def validate_value_def type_validation_def range_validation_def
      custom_validation_def send_config_update_def get_value_def
      spec_validate_def spec_type_check_def spec_range_check_def spec_enum_check_def
      spec_custom_check_def)

text \<open>
  C5, amended: for a registered key, \<^verbatim>\<open>set_value(key, value)\<close> decides by the four checks
  of the specification, taken in its order (type coercion or check, range, enum
  membership, custom validator). If one fails, the call returns \<^verbatim>\<open>False\<close> and the panel
  is unchanged. If all pass, the value is stored under the key, no other value and no
  field changes, \<^verbatim>\<open>get_value\<close> returns it, and the call does not return \<^verbatim>\<open>False\<close>: it
  returns \<^verbatim>\<open>True\<close> whenever the client queues its messages or falls back gracefully, and
  otherwise may leave with an exception of the client, the value being stored already.
\<close>

theorem set_value_all_or_nothing:
  assumes "cfields p k = Some f"
  shows "if spec_validate lib f v
         then cvalues (snd (set_value lib p k v True)) = (cvalues p)(k \<mapsto> v)
              \<and> cfields (snd (set_value lib p k v True)) = cfields p
              \<and> get_value (snd (set_value lib p k v True)) k d = v
              \<and> fst (set_value lib p k v True) \<noteq> Inr False
              \<and> (thread_safe (cfg (panel_client p)) \<or> graceful_fallback (cfg (panel_client p))
                   \<longrightarrow> fst (set_value lib p k v True) = Inr True)
         else set_value lib p k v True = (Inr False, p)"
proof (cases "validate_value lib f v")
  case True
  then have t: "True \<longrightarrow> validate_value lib f v" by simp
  show ?thesis
    using True set_value_stored [OF assms t] set_value_returns [OF assms t]
    by (simp add: validate_value_spec get_value_def)
next
  case False
  with set_value_rejected [OF assms, of lib v] show ?thesis
    by (simp add: validate_value_spec)
qed

text \<open>
  The specification's example: after
  \<^verbatim>\<open>add_field("n", "integer", default=5, min_value=1, max_value=10)\<close> on a default client,
  \<^verbatim>\<open>set_value("n", 15)\<close> and \<^verbatim>\<open>set_value("n", 0)\<close> return \<^verbatim>\<open>False\<close> and leave 5, and
  \<^verbatim>\<open>set_value("n", 7)\<close> returns \<^verbatim>\<open>True\<close> and stores 7. With a validator that wants an
  even number, 7 is refused and 8 stored.
\<close>

theorem set_value_all_or_nothing_witness:
  "cfields panel_n ''n'' = Some field_n
   \<and> set_value decimal_lib panel_n ''n'' (PInt 15) True = (Inr False, panel_n)
   \<and> set_value decimal_lib panel_n ''n'' (PInt 0) True = (Inr False, panel_n)
   \<and> get_value panel_n ''n'' PNone = PInt 5
   \<and> fst (set_value decimal_lib panel_n ''n'' (PInt 7) True) = Inr True
   \<and> get_value (snd (set_value decimal_lib panel_n ''n'' (PInt 7) True)) ''n'' PNone = PInt 7
   \<and> cfields panel_even ''n'' = Some field_even
   \<and> set_value decimal_lib panel_even ''n'' (PInt 7) True = (Inr False, panel_even)
   \<and> get_value panel_even ''n'' PNone = PInt 5
   \<and> fst (set_value decimal_lib panel_even ''n'' (PInt 8) True) = Inr True
   \<and> get_value (snd (set_value decimal_lib panel_even ''n'' (PInt 8) True)) ''n'' PNone = PInt 8"
proof -
  have a: "cfields panel_n ''n'' = Some field_n" by (rule panel_n_state)
  have b: "cfields panel_even ''n'' = Some field_even" by (rule panel_even_state)
  have "set_value decimal_lib panel_n ''n'' (PInt 15) True = (Inr False, panel_n)"
    using set_value_all_or_nothing [OF a, of decimal_lib "PInt 15" PNone]
    by (simp add: field_n_verdicts)
  moreover have "set_value decimal_lib panel_n ''n'' (PInt 0) True = (Inr False, panel_n)"
    using set_value_all_or_nothing [OF a, of decimal_lib "PInt 0" PNone]
    by (simp add: field_n_verdicts)
  moreover have "fst (set_value decimal_lib panel_n ''n'' (PInt 7) True) = Inr True
     \<and> get_value (snd (set_value decimal_lib panel_n ''n'' (PInt 7) True)) ''n'' PNone = PInt 7"
    using set_value_all_or_nothing [OF a, of decimal_lib "PInt 7" PNone]
    by (simp add: field_n_verdicts panel_n_state)
  moreover have "set_value decimal_lib panel_even ''n'' (PInt 7) True = (Inr False, panel_even)"
    using set_value_all_or_nothing [OF b, of decimal_lib "PInt 7" PNone]
    by (simp add: field_even_verdicts)
  moreover have "fst (set_value decimal_lib panel_even ''n'' (PInt 8) True) = Inr True
     \<and> get_value (snd (set_value decimal_lib panel_even ''n'' (PInt 8) True)) ''n'' PNone = PInt 8"
    using set_value_all_or_nothing [OF b, of decimal_lib "PInt 8" PNone]
    by (simp add: field_even_verdicts panel_even_state)
  moreover have "get_value panel_n ''n'' PNone = PInt 5" "get_value panel_even ''n'' PNone = PInt 5"
    by (simp_all add: get_value_def panel_n_state panel_even_state)
  ultimately show ?thesis using a b by simp
qed

text \<open>
  C9: \<^verbatim>\<open>add_field\<close> for a key that already has a value replaces the field definition
  and leaves every stored value as it was, whatever default the new call carries.
\<close>

theorem add_field_keeps_value:
  assumes "cvalues p (key f) = Some v"
  shows "cvalues (snd (add_field p f)) = cvalues p
     \<and> cfields (snd (add_field p f)) (key f) = Some f"
  using assms by (auto simp add: add_field_def send_config_field_def Let_def)

text \<open>
  Re-adding \<^verbatim>\<open>n\<close> with default 9 and maximum 20: the value 5 taken from the first default
  stays, and so does a 7 set in between.
\<close>

theorem add_field_keeps_value_witness:
  "cvalues panel_n (key (field_n\<lparr>default_value := PInt 9, max_value := Some (NInt 20)\<rparr>))
     = Some (PInt 5)
   \<and> get_value (snd (add_field panel_n
                        (field_n\<lparr>default_value := PInt 9, max_value := Some (NInt 20)\<rparr>)))
        ''n'' PNone = PInt 5
   \<and> get_value (snd (add_field (snd (set_value decimal_lib panel_n ''n'' (PInt 7) True))
                        (field_n\<lparr>default_value := PInt 9, max_value := Some (NInt 20)\<rparr>)))
        ''n'' PNone = PInt 7"
proof -
  let ?f = "field_n\<lparr>default_value := PInt 9, max_value := Some (NInt 20)\<rparr>"
  let ?p7 = "snd (set_value decimal_lib panel_n ''n'' (PInt 7) True)"
  have k: "key ?f = ''n''" by (simp add: field_n_def)
  have a: "cvalues panel_n (key ?f) = Some (PInt 5)" by (simp add: k panel_n_state)
  have v: "True \<longrightarrow> validate_value decimal_lib field_n (PInt 7)"
    by (simp add: validate_value_spec field_n_verdicts)
  have b: "cvalues ?p7 (key ?f) = Some (PInt 7)"
    by (simp add: k set_value_stored(1) [OF panel_n_state(1) v])
  show ?thesis
    using add_field_keeps_value [OF a] add_field_keeps_value [OF b] a b
    by (simp add: get_value_def k)
qed

text \<open>
  C10, as stated, fails on the same kind of client: a panel whose synchronous,
  non-graceful client has lost its output stream stores the string \<^verbatim>\<open>"7"\<close> in the integer
  field \<^verbatim>\<open>n\<close> and then raises instead of returning success.
\<close>

theorem set_value_coercible_raises_counterexample:
  "cfields panel_n_closed ''n'' = Some field_n
   \<and> type_validation decimal_lib field_n (PStr ''7'') = Some (PInt 7)
   \<and> range_validation field_n (PInt 7)
   \<and> fst (set_value decimal_lib panel_n_closed ''n'' (PStr ''7'') True) = Inl OSError
   \<and> get_value (snd (set_value decimal_lib panel_n_closed ''n'' (PStr ''7'') True))
        ''n'' PNone = PStr ''7''"
  by (simp add: panel_n_closed_def add_field_def panel_init_def send_config_field_def field_n_def
      panel_send_def strict_client_def client_init_def default_config_def Let_def
      send_message_async_def flush_batch_def json_dumps_def to_jsonrpc_def
      set_value_def validate_value_def type_validation_def range_validation_def
      custom_validation_def send_config_update_def get_value_def decimal_lib_def
      py_lt_def py_gt_def)

text \<open>
  C10, amended: what \<^verbatim>\<open>_validate_value\<close> checks is the coerced value \<open>c\<close>; what
  \<^verbatim>\<open>set_value\<close> stores and \<^verbatim>\<open>get_value\<close> returns is the argument \<open>v\<close> as it was passed,
  whether the call then returns or leaves with an exception of the client. It never
  returns \<^verbatim>\<open>False\<close>, and it returns \<^verbatim>\<open>True\<close> whenever the client queues its messages or
  falls back gracefully.
\<close>

theorem set_value_stores_uncoerced:
  assumes "cfields p k = Some f" "type_validation lib f v = Some c"
    "range_validation f c" "custom_validation f c"
  shows "get_value (snd (set_value lib p k v True)) k d = v
     \<and> fst (set_value lib p k v True) \<noteq> Inr False
     \<and> (thread_safe (cfg (panel_client p)) \<or> graceful_fallback (cfg (panel_client p))
          \<longrightarrow> fst (set_value lib p k v True) = Inr True)"
proof -
  have t: "True \<longrightarrow> validate_value lib f v"
    using assms(2-4) by (simp add: validate_value_def)
  show ?thesis
    using set_value_stored [OF assms(1) t] set_value_returns [OF assms(1) t]
    by (simp add: get_value_def)
qed

text \<open>
  On the integer field \<^verbatim>\<open>n\<close> with bounds 1 and 10 and a default client, the string
  \<^verbatim>\<open>"7"\<close> is validated as the integer 7 and stored as the string.
\<close>

theorem set_value_stores_uncoerced_witness:
  "cfields panel_n ''n'' = Some field_n
   \<and> type_validation decimal_lib field_n (PStr ''7'') = Some (PInt 7)
   \<and> range_validation field_n (PInt 7) \<and> custom_validation field_n (PInt 7)
   \<and> thread_safe (cfg (panel_client panel_n))
   \<and> fst (set_value decimal_lib panel_n ''n'' (PStr ''7'') True) = Inr True
   \<and> get_value (snd (set_value decimal_lib panel_n ''n'' (PStr ''7'') True)) ''n'' PNone
        = PStr ''7''
   \<and> PStr ''7'' \<noteq> PInt 7"
proof -
  have a: "cfields panel_n ''n'' = Some field_n" by (rule panel_n_state)
  have b: "type_validation decimal_lib field_n (PStr ''7'') = Some (PInt 7)"
    by (simp add: type_validation_def field_n_def decimal_lib_def)
  have c: "range_validation field_n (PInt 7)" "custom_validation field_n (PInt 7)"
    by (simp_all add: field_n_def range_validation_def py_lt_def py_gt_def custom_validation_def)
  show ?thesis
    using set_value_stores_uncoerced [OF a b c, of PNone] a b c panel_n_state(3) by simp
qed

section \<open>Properties of the progress tracker\<close>

lemma client_progress_current:
  "(''current'', v) \<in> set kw \<Longrightarrow> client_progress pid lbl cur tot kw = Inl TypeError"
  by (auto simp add: client_progress_def list_ex_iff intro: bexI [where x="(''current'', v)"])

text \<open>
  \<^verbatim>\<open>update\<close> never hands an envelope to the client: for an unknown id it returns at
  once, and for an active one the call of \<^verbatim>\<open>client.progress\<close> raises.
\<close>

lemma update_never_sends:
  "(case update t pid cur details of
      Returned t' \<Rightarrow> active_progress t pid = None \<and> tracker_sent t' = tracker_sent t
    | Raised e t' \<Rightarrow> active_progress t pid \<noteq> None \<and> tracker_sent t' = tracker_sent t
    | Blocked \<Rightarrow> lock_held t
    | OutOfFuel \<Rightarrow> False)"
  by (auto simp add: update_def Let_def read_clock_def client_progress_current
      split: option.splits prod.splits)

text \<open>
  C7, on the code: for an active record, with \<open>current > 0\<close> and a positive elapsed time,
  \<^verbatim>\<open>update\<close> does store the estimated completion
  \<open>now + (total - current) / (current / elapsed)\<close> in the record, and then raises
  \<^verbatim>\<open>TypeError\<close> instead of sending the progress envelope: the client has received
  nothing.
\<close>

theorem update_eta_then_type_error:
  assumes "active_progress t pid = Some pd" "\<not> lock_held t"
    and "cur > 0" "clock t (ticks t) - start_time pd > 0"
    and "\<not> eta_overflows (clock t (ticks t + 1))
             ((total pd - cur) / (cur / (clock t (ticks t) - start_time pd)))"
  shows "\<exists>t' pd'. update t pid cur details = Raised TypeError t'
     \<and> tracker_sent t' = tracker_sent t
     \<and> active_progress t' pid = Some pd'
     \<and> estimated_completion pd' =
         Some (clock t (ticks t + 1)
               + (total pd - cur) / (cur / (clock t (ticks t) - start_time pd)))"
  using assms
  by (simp add: update_def Let_def read_clock_def client_progress_current split: prod.splits)

lemma tracker_t_state:
  "active_progress tracker_t ''t'' =
     Some \<lparr>prog_id = ''t'', prog_label = ''Task'', total = 10, current = 0, prog_unit = [],
           start_time = 100, last_update = 105, parent_id = None, children = [],
           estimated_completion = None, end_time = None, success = None, duration = None\<rparr>"
  "\<not> lock_held tracker_t" "ticks tracker_t = 2" "clock tracker_t = demo_clock"
  by (simp_all add: tracker_t_def started_def start_def tracker_init_def read_clock_def
      demo_clock_def client_progress_def kw_get_def Let_def)

text \<open>
  \<^verbatim>\<open>start("t", "Task", 10)\<close> at time 100, then \<^verbatim>\<open>update("t", 5)\<close> at time 110: the
  estimate 115 + 5 / (5 / 10) = 125 is stored, \<^verbatim>\<open>TypeError\<close> is raised, nothing is sent.
\<close>

theorem update_eta_then_type_error_witness:
  "\<not> lock_held tracker_t \<and> (5::real) > 0
   \<and> (\<exists>t' pd'. update tracker_t ''t'' 5 None = Raised TypeError t'
         \<and> tracker_sent t' = tracker_sent tracker_t
         \<and> active_progress t' ''t'' = Some pd'
         \<and> estimated_completion pd' = Some 125)"
proof -
  have e: "\<not> eta_overflows (clock tracker_t (ticks tracker_t + 1))
     ((total \<lparr>prog_id = ''t'', prog_label = ''Task'', total = 10, current = 0, prog_unit = [],
           start_time = 100, last_update = 105, parent_id = None, children = [],
           estimated_completion = None, end_time = None, success = None, duration = None\<rparr> - 5)
       / (5 / (clock tracker_t (ticks tracker_t) - start_time \<lparr>prog_id = ''t'', prog_label = ''Task'', total = 10, current = 0, prog_unit = [],
           start_time = 100, last_update = 105, parent_id = None, children = [],
           estimated_completion = None, end_time = None, success = None, duration = None\<rparr>)))"
    by (simp add: tracker_t_state demo_clock_def eta_overflows_def)
  show ?thesis
    using update_eta_then_type_error [OF tracker_t_state(1) tracker_t_state(2) _ _ e, of None]
    by (simp add: tracker_t_state demo_clock_def)
qed

lemma fold_blocked:
  "fold (\<lambda>child acc. case acc of Returned t' \<Rightarrow> f t' child | other \<Rightarrow> other) cs Blocked = Blocked"
  by (induction cs) simp_all

text \<open>
  C4, on the code: when the record being completed has a registered child, the first
  recursive call finds the lock held by its own caller and waits for it forever. The call
  does not return, whatever fuel the model is given, and nothing has moved to the history.
\<close>

theorem complete_parent_blocks:
  assumes "active_progress t pid = Some pd" "children pd = c # cs" "\<not> lock_held t"
  shows "complete (Suc (Suc n)) t pid ok final_message = Blocked"
  using assms by (simp add: fold_blocked)

lemma tracker_pc_state:
  "active_progress tracker_pc ''p'' =
     Some \<lparr>prog_id = ''p'', prog_label = ''Parent'', total = 2, current = 0, prog_unit = [],
           start_time = 100, last_update = 105, parent_id = None, children = [''c''],
           estimated_completion = None, end_time = None, success = None, duration = None\<rparr>"
  "\<not> lock_held tracker_pc"
  by (simp_all add: tracker_pc_def started_def start_def tracker_init_def read_clock_def
      demo_clock_def client_progress_def kw_get_def Let_def)

theorem complete_parent_blocks_witness:
  "\<not> lock_held tracker_pc \<and> complete 2 tracker_pc ''p'' True None = Blocked
   \<and> complete 100 tracker_pc ''p'' True None = Blocked"
proof -
  have c: "children \<lparr>prog_id = ''p'', prog_label = ''Parent'', total = 2, current = 0,
           prog_unit = [], start_time = 100, last_update = 105, parent_id = None,
           children = [''c''], estimated_completion = None, end_time = None, success = None,
           duration = None\<rparr> = ''c'' # []"
    by simp
  have "complete (Suc (Suc 0)) tracker_pc ''p'' True None = Blocked"
    by (rule complete_parent_blocks [OF tracker_pc_state(1) c tracker_pc_state(2)])
  moreover have "complete (Suc (Suc 98)) tracker_pc ''p'' True None = Blocked"
    by (rule complete_parent_blocks [OF tracker_pc_state(1) c tracker_pc_state(2)])
  ultimately show ?thesis
    using tracker_pc_state(2) by (simp add: numeral_2_eq_2)
qed

section \<open>Properties of the transport\<close>








lemma jsonable_to_jsonrpc [simp]:
  "jsonable (to_jsonrpc m app session seq) = jsonable (msg_params m)"
  by (simp add: to_jsonrpc_def split: option.splits)



lemma batch_envelopes_buffer [simp]:
  "batch_envelopes (c\<lparr>buffer := b\<rparr>) seq msgs = batch_envelopes c seq msgs"
  by (induction msgs arbitrary: seq) simp_all

lemma batch_document_buffer [simp]:
  "batch_document (c\<lparr>buffer := b\<rparr>) msgs = batch_document c msgs"
  by (simp add: batch_document_def)











section \<open>Properties of the audit log\<close>

text \<open>
  The text hashed when a record is written holds the member \<^verbatim>\<open>"checksum": null\<close>; the
  text hashed when it is verified does not. The two differ for every record, at their
  third character.
\<close>

lemma dumps_sorted_differs:
  "dumps_sorted env (e\<lparr>ev_checksum := Some c\<rparr>) \<noteq> dumps_sorted env (e\<lparr>ev_checksum := None\<rparr>)"
  by (simp add: dumps_sorted_def sorted_items_def quoted_def)

lemma audit_send_frame [simp]:
  "cfg (audit_client (snd (audit_send lg m x))) = cfg (audit_client lg)"
  "audit_lines (snd (audit_send lg m x)) = audit_lines lg"
  "audit_path_set (snd (audit_send lg m x)) = audit_path_set lg"
  by (simp_all add: audit_send_def Let_def)

lemma audit_send_quiet:
  "thread_safe (cfg (audit_client lg)) \<or> graceful_fallback (cfg (audit_client lg)) \<Longrightarrow>
     fst (audit_send lg m x) = None"
  by (simp add: audit_send_def Let_def send_message_async_quiet)

lemma audit_log_frame [simp]:
  "cfg (audit_client (snd (audit_log lg msg lvl))) = cfg (audit_client lg)"
  "audit_lines (snd (audit_log lg msg lvl)) = audit_lines lg"
  "audit_path_set (snd (audit_log lg msg lvl)) = audit_path_set lg"
  by (simp_all add: audit_log_def)

lemma audit_log_quiet:
  "thread_safe (cfg (audit_client lg)) \<or> graceful_fallback (cfg (audit_client lg)) \<Longrightarrow>
     fst (audit_log lg msg lvl) = None"
  by (simp add: audit_log_def audit_send_quiet)

text \<open>
  A scan over lines that were written by \<^verbatim>\<open>_log_audit_event\<close> and on which the digest
  does not collide counts every one of them as corrupted.
\<close>

lemma verify_lines_written:
  assumes "thread_safe (cfg (audit_client lg)) \<or> graceful_fallback (cfg (audit_client lg))"
    and "\<forall>l\<in>set ls. as_written env l" "\<forall>l\<in>set ls. \<not> collides env l"
  shows "fst (verify_lines env lg ls verified corrupted) = Completed verified (corrupted + length ls)"
  using assms
proof (induction ls arbitrary: lg corrupted)
  case Nil
  then show ?case by simp
next
  case (Cons l ls)
  from Cons.prems(2) obtain e where l: "l = Parsed e" by (cases l) auto
  have s: "ev_checksum e =
     Some (PStr (sha256_16 env (dumps_sorted env (e\<lparr>ev_checksum := Some PNone\<rparr>))))"
    using Cons.prems(2) l by simp
  have n: "sha256_16 env (dumps_sorted env (e\<lparr>ev_checksum := Some PNone\<rparr>))
      \<noteq> sha256_16 env (dumps_sorted env (e\<lparr>ev_checksum := None\<rparr>))"
    using Cons.prems(3) l by simp
  let ?lg = "snd (audit_log lg ''Audit log corruption detected at line '' ''WARN'')"
  have q: "fst (audit_log lg ''Audit log corruption detected at line '' ''WARN'') = None"
    by (rule audit_log_quiet [OF Cons.prems(1)])
  have "fst (verify_lines env ?lg ls verified (corrupted + 1))
      = Completed verified (corrupted + 1 + length ls)"
    by (rule Cons.IH) (use Cons.prems in simp_all)
  then show ?case
    by (simp add: l s n q Let_def)
qed

lemma log_audit_event_line:
  assumes "audit_path_set lg" "audit_disk_ok lg" "jsonable d"
  shows "\<exists>l. audit_lines (snd (log_audit_event env lg t d))
            = Some ((case audit_lines lg of None \<Rightarrow> [] | Some ls \<Rightarrow> ls) @ [l])
          \<and> as_written env l"
  using assms
  by (simp add: log_audit_event_def Let_def audit_client_event_def)

text \<open>
  C1, on the code: \<^verbatim>\<open>_log_audit_event\<close> appends a line whose checksum is the digest of
  the event text that contains \<^verbatim>\<open>"checksum": null\<close>, and \<^verbatim>\<open>verify_integrity\<close> compares
  it with the digest of the text without that member. So on a file of lines exactly as
  \<^verbatim>\<open>_log_audit_event\<close> wrote them, none corrupted, \<^verbatim>\<open>verify_integrity\<close> reports zero
  verified and every line corrupted, unless the digest collides on the two texts of a
  line (which differ for every record).
\<close>

theorem verify_integrity_rejects_written_records:
  assumes "thread_safe (cfg (audit_client lg)) \<or> graceful_fallback (cfg (audit_client lg))"
    and "audit_path_set lg" "audit_lines lg = Some ls"
    and "\<forall>l\<in>set ls. as_written env l" "\<forall>l\<in>set ls. \<not> collides env l"
  shows "fst (verify_integrity env lg) = Completed 0 (length ls)
     \<and> (audit_disk_ok lg \<and> jsonable d \<longrightarrow>
          (\<exists>l. audit_lines (snd (log_audit_event env lg t d)) = Some (ls @ [l])
                \<and> as_written env l))"
  using verify_lines_written [OF assms(1,4,5), of 0 0]
    log_audit_event_line [OF assms(2), of d env t] assms(2,3)
  by (simp add: verify_integrity_def)

text \<open>
  Two \<^verbatim>\<open>log_access\<close> calls on a new logger, then \<^verbatim>\<open>verify_integrity\<close>: both lines are
  as written, and the report is 0 verified, 2 corrupted.
\<close>

lemma demo_logged_state:
  "thread_safe (cfg (audit_client demo_logged))" "audit_path_set demo_logged"
  "\<exists>l1 l2. audit_lines demo_logged = Some [l1, l2] \<and> as_written demo_env l1
      \<and> as_written demo_env l2 \<and> \<not> collides demo_env l1 \<and> \<not> collides demo_env l2"
  by (simp_all add: demo_logged_def log_access_def log_audit_event_def demo_logger_def
      audit_client_event_def audit_send_def send_message_async_def client_init_def
      default_config_def queue_full_def maxsize_def Let_def
      demo_env_def dumps_sorted_def sorted_items_def quoted_def)

theorem verify_integrity_rejects_written_records_witness:
  "thread_safe (cfg (audit_client demo_logged)) \<and> audit_path_set demo_logged
   \<and> map_option length (audit_lines demo_logged) = Some 2
   \<and> fst (verify_integrity demo_env demo_logged) = Completed 0 2"
proof -
  from demo_logged_state(3) obtain l1 l2 where
    l: "audit_lines demo_logged = Some [l1, l2]"
    and w: "\<forall>l\<in>set [l1, l2]. as_written demo_env l"
    and n: "\<forall>l\<in>set [l1, l2]. \<not> collides demo_env l"
    by auto
  have q: "thread_safe (cfg (audit_client demo_logged))
      \<or> graceful_fallback (cfg (audit_client demo_logged))"
    using demo_logged_state(1) by simp
  show ?thesis
    using verify_integrity_rejects_written_records [OF q demo_logged_state(2) l w n, of PNone "''x''"]
      demo_logged_state(1,2) l
    by simp
qed

end
